theory Spec2Isabelle
  imports Main "HOL-Library.Sublist"
begin

section \<open>Python values, exceptions and text helpers\<close>

text \<open>
  Text is a \<^typ>\<open>string\<close>: the UTF-8 bytes of a Python \<open>str\<close>. A raised exception is a
  value carrying what the handlers print of it: \<open>type(e).__name__\<close> and \<open>str(e)\<close>.
  A fallible computation returns \<open>exn + 'a\<close>, with \<open>Inl\<close> for the raised exception.
\<close>

record exn =
  exn_type :: string
  exn_msg :: string

definition runtime_error :: "string \<Rightarrow> exn" where
  "runtime_error m = \<lparr>exn_type = ''RuntimeError'', exn_msg = m\<rparr>"

text \<open>\<open>str(KeyError(k))\<close> is the key between single quotes.\<close>

definition key_error :: "string \<Rightarrow> exn" where
  "key_error k = \<lparr>exn_type = ''KeyError'', exn_msg = [CHR 0x27] @ k @ [CHR 0x27]\<rparr>"

text \<open>The f-string \<open>{type(e).__name__}: {e}\<close>.\<close>

definition technical_details :: "exn \<Rightarrow> string" where
  "technical_details e = exn_type e @ '': '' @ exn_msg e"

definition bind_exn :: "exn + 'a \<Rightarrow> ('a \<Rightarrow> exn + 'b) \<Rightarrow> exn + 'b" where
  "bind_exn m f = (case m of Inl e \<Rightarrow> Inl e | Inr x \<Rightarrow> f x)"

text \<open>A comprehension whose element expression may raise: the first exception wins.\<close>

fun traverse :: "('a \<Rightarrow> exn + 'b) \<Rightarrow> 'a list \<Rightarrow> exn + 'b list" where
  "traverse f [] = Inr []"
| "traverse f (x # xs) =
     (case f x of
        Inl e \<Rightarrow> Inl e
      | Inr y \<Rightarrow> (case traverse f xs of Inl e \<Rightarrow> Inl e | Inr ys \<Rightarrow> Inr (y # ys)))"

text \<open>\<open>sep.join(parts)\<close>.\<close>

fun join :: "string \<Rightarrow> string list \<Rightarrow> string" where
  "join sep [] = []"
| "join sep [x] = x"
| "join sep (x # y # zs) = x @ sep @ join sep (y # zs)"

text \<open>Truth value and \<open>str()\<close> of an \<open>Optional[str]\<close>.\<close>

definition truthy_str :: "string option \<Rightarrow> bool" where
  "truthy_str s = (case s of None \<Rightarrow> False | Some t \<Rightarrow> t \<noteq> [])"

definition str_opt :: "string option \<Rightarrow> string" where
  "str_opt s = (case s of None \<Rightarrow> ''None'' | Some t \<Rightarrow> t)"

text \<open>\<open>a or b\<close> on optional strings.\<close>

definition py_or :: "string option \<Rightarrow> string option \<Rightarrow> string option" where
  "py_or a b = (if truthy_str a then a else b)"

text \<open>\<open>w in q\<close> on strings: \<open>w\<close> occurs in \<open>q\<close> as a contiguous run.\<close>

fun starts_with :: "string \<Rightarrow> string \<Rightarrow> bool" where
  "starts_with [] q = True"
| "starts_with (c # w) [] = False"
| "starts_with (c # w) (d # q) = (c = d \<and> starts_with w q)"

fun str_in :: "string \<Rightarrow> string \<Rightarrow> bool" where
  "str_in w [] = (w = [])"
| "str_in w (d # q) = (starts_with w (d # q) \<or> str_in w q)"

text \<open>A database row as \<open>dict(row)\<close> gives it: column names with their cells, in column
  order. The cell type \<open>'v\<close> stands for the Python values sqlite3 returns.\<close>

type_synonym 'v row = "(string \<times> 'v) list"

definition getitem :: "'v row \<Rightarrow> string \<Rightarrow> exn + 'v" where
  "getitem r k = (case map_of r k of None \<Rightarrow> Inl (key_error k) | Some v \<Rightarrow> Inr v)"

section \<open>The collaborators outside the repository\<close>

text \<open>
  Every call that leaves the program is recorded, in order, in the world's call list.
  The parameters of a query are a dict from parameter name to Python value.
\<close>

datatype 'v call =
    RunQuery string "(string \<times> 'v) list"
  | CrewKickoff string string string
  | ChatCompletion string string string string
  | LlmInvoke string string string
  | BuildIndexFaiss
  | BuildIndexDefault
  | AsQueryEngine
  | EngineQuery string

text \<open>
  The environment holds what the program reads but does not define: the Python runtime's
  \<open>str.lower\<close>, and on the values \<open>'v\<close> found in cells \<open>repr\<close>, \<open>str\<close>, the truth value,
  \<open>==\<close> and the value that a \<open>str\<close> of the program is; the configuration
  (API key, model name, database URI); the SQLite store answering \<open>cursor.execute\<close>; and the
  language-model and index libraries. The store is read-only, so its answer depends on
  the query alone; a model's answer may depend on all the calls made before it.
  \<^item> \<open>crew_kickoff\<close>: building the CrewAI crew and \<open>str(crew.kickoff(inputs))\<close>, from the
    inputs \<open>customer_identifier\<close>, \<open>query\<close>, \<open>db_snapshot\<close>;
  \<^item> \<open>chat_create\<close>: \<open>client.chat.completions.create\<close> and the content of its first choice,
    from model, system prompt, user message and temperature;
  \<^item> \<open>llm_invoke\<close>: \<open>ChatOpenAI(...).invoke(messages).content\<close>, from model, system message
    and user message;
  \<^item> \<open>build_index_faiss\<close>, \<open>build_index_default\<close>: loading the documents and building the
    vector index; \<open>as_query_engine\<close>: \<open>index.as_query_engine(similarity_top_k=3)\<close>;
    \<open>engine_query\<close>: \<open>str(query_engine.query(question))\<close>;
  \<^item> \<open>graph_compile\<close>: LangGraph building and compiling the workflow of \<open>create_graph\<close>.
\<close>

record 'v env =
  str_lower :: "string \<Rightarrow> string"
  val_of_str :: "string \<Rightarrow> 'v"
  val_repr :: "'v \<Rightarrow> string"
  val_str :: "'v \<Rightarrow> string"
  val_truthy :: "'v \<Rightarrow> bool"
  val_eq :: "'v \<Rightarrow> 'v \<Rightarrow> bool"
  openai_api_key :: "string option"
  openai_model :: string
  db_uri :: string
  sqlite_execute :: "string \<Rightarrow> (string \<times> 'v) list \<Rightarrow> exn + 'v row list"
  crew_kickoff :: "'v call list \<Rightarrow> string \<Rightarrow> string \<Rightarrow> string \<Rightarrow> exn + string"
  chat_create :: "'v call list \<Rightarrow> string \<Rightarrow> string \<Rightarrow> string \<Rightarrow> string \<Rightarrow> exn + string"
  llm_invoke :: "'v call list \<Rightarrow> string \<Rightarrow> string \<Rightarrow> string \<Rightarrow> exn + string"
  has_faiss :: bool
  build_index_faiss :: "exn + unit"
  build_index_default :: "exn + unit"
  as_query_engine :: "exn + unit"
  engine_query :: "'v call list \<Rightarrow> string \<Rightarrow> exn + string"
  graph_compile :: "exn + unit"

text \<open>The state that outlives a call: the calls made so far and whether the module
  global \<open>_INDEX\<close> of the knowledge agent holds an index.\<close>

record 'v world =
  calls :: "'v call list"
  index_loaded :: bool

definition record_call :: "'v call \<Rightarrow> 'v world \<Rightarrow> 'v world" where
  "record_call c w = w\<lparr>calls := calls w @ [c]\<rparr>"

section \<open>utils/database.py\<close>

definition run_query ::
  "'v env \<Rightarrow> 'v world \<Rightarrow> string \<Rightarrow> (string \<times> 'v) list \<Rightarrow> (exn + 'v row list) \<times> 'v world" where
  "run_query env w sql params = (sqlite_execute env sql params, record_call (RunQuery sql params) w)"

definition tables_sql :: string where
  "tables_sql = ''SELECT name FROM sqlite_master WHERE type='' @ [CHR 0x27] @ ''table'' @ [CHR 0x27] @
     '' ORDER BY name''"

definition get_tables :: "'v env \<Rightarrow> 'v world \<Rightarrow> (exn + 'v list) \<times> 'v world" where
  "get_tables env w =
     (case run_query env w tables_sql [] of
        (Inl e, w1) \<Rightarrow> (Inl e, w1)
      | (Inr rows, w1) \<Rightarrow> (traverse (\<lambda>r. getitem r ''name'') rows, w1))"

text \<open>\<open>name in tables\<close>, for a \<open>str\<close> of the program and a list of cells.\<close>

definition py_in :: "'v env \<Rightarrow> string \<Rightarrow> 'v list \<Rightarrow> bool" where
  "py_in env name xs = list_ex (val_eq env (val_of_str env name)) xs"

section \<open>agents/billing\_agents.py\<close>

definition format_cell :: "'v env \<Rightarrow> 'v row \<Rightarrow> string \<Rightarrow> exn + string" where
  "format_cell env r col = bind_exn (getitem r col) (\<lambda>v. Inr (col @ ''='' @ val_repr env v))"

definition format_row :: "'v env \<Rightarrow> string list \<Rightarrow> 'v row \<Rightarrow> exn + string" where
  "format_row env columns r =
     bind_exn (traverse (format_cell env r) columns) (\<lambda>parts. Inr (''  - '' @ join '', '' parts))"

definition format_rows :: "'v env \<Rightarrow> 'v row list \<Rightarrow> exn + string" where
  "format_rows env rows =
     (if rows = [] then Inr ''  (no rows)\<newline>''
      else
        let rows5 = take 5 rows;
            columns = map fst (hd rows5)
        in bind_exn (traverse (format_row env columns) rows5)
             (\<lambda>ls. Inr (join ''\<newline>'' ((''  Columns: '' @ join '', '' columns) # ls) @ ''\<newline>'')))"

definition candidate_columns :: "string list" where
  "candidate_columns = [''customer_id'', ''customerid'', ''email'', ''phone'', ''msisdn'', ''account_id'']"

definition filter_sql :: "string \<Rightarrow> string \<Rightarrow> string" where
  "filter_sql table col = ''SELECT * FROM '' @ table @ '' WHERE '' @ col @ '' = :val LIMIT 5''"

definition sample_sql :: "string \<Rightarrow> string" where
  "sample_sql table = ''SELECT * FROM '' @ table @ '' LIMIT 5''"

text \<open>
  The loop \<open>for col in candidate_columns\<close> of one table, on the columns still to try. Its
  state is \<open>filtered_rows\<close>, \<open>lines\<close> and the world. \<open>break\<close> returns; an exception
  anywhere in the \<open>try\<close> body goes on with the next column, keeping what was assigned
  before it.
\<close>

fun try_columns ::
  "'v env \<Rightarrow> string \<Rightarrow> string \<Rightarrow> string list \<Rightarrow> 'v row list \<Rightarrow> string list \<Rightarrow> 'v world
     \<Rightarrow> 'v row list \<times> string list \<times> 'v world" where
  "try_columns env ident table [] filtered_rows lines w = (filtered_rows, lines, w)"
| "try_columns env ident table (col # cols) filtered_rows lines w =
     (case run_query env w (filter_sql table col) [(''val'', val_of_str env ident)] of
        (Inl e, w1) \<Rightarrow> try_columns env ident table cols filtered_rows lines w1
      | (Inr rows, w1) \<Rightarrow>
          if rows \<noteq> [] then
            let lines1 = lines @ [''  Rows for '' @ col @ '' = '' @ val_repr env (val_of_str env ident) @ '':'']
            in (case format_rows env rows of
                  Inl e \<Rightarrow> try_columns env ident table cols rows lines1 w1
                | Inr txt \<Rightarrow> (rows, lines1 @ [txt], w1))
          else try_columns env ident table cols rows lines w1)"

text \<open>The body of \<open>for table in tables\<close>.\<close>

definition snapshot_table ::
  "'v env \<Rightarrow> string option \<Rightarrow> 'v \<Rightarrow> string list \<Rightarrow> 'v world \<Rightarrow> string list \<times> 'v world" where
  "snapshot_table env customer_identifier table lines w =
     (let name = val_str env table;
          lines1 = lines @ [''\<newline>Table: '' @ name];
          (filtered_rows, lines2, w2) =
            (if truthy_str customer_identifier
             then try_columns env (the customer_identifier) name candidate_columns [] lines1 w
             else ([], lines1, w))
      in if filtered_rows = [] then
           (case run_query env w2 (sample_sql name) [] of
              (Inl e, w3) \<Rightarrow>
                (lines2 @ [''  (Failed to query table '' @ name @ '': '' @ technical_details e @ '')''], w3)
            | (Inr sample_rows, w3) \<Rightarrow>
                (case format_rows env sample_rows of
                   Inl e \<Rightarrow>
                     (lines2 @ [''  Sample rows:'',
                        ''  (Failed to query table '' @ name @ '': '' @ technical_details e @ '')''], w3)
                 | Inr txt \<Rightarrow> (lines2 @ [''  Sample rows:'', txt], w3)))
         else (lines2, w2))"

fun snapshot_tables ::
  "'v env \<Rightarrow> string option \<Rightarrow> 'v list \<Rightarrow> string list \<Rightarrow> 'v world \<Rightarrow> string list \<times> 'v world" where
  "snapshot_tables env customer_identifier [] lines w = (lines, w)"
| "snapshot_tables env customer_identifier (table # tables) lines w =
     (case snapshot_table env customer_identifier table lines w of
        (lines1, w1) \<Rightarrow> snapshot_tables env customer_identifier tables lines1 w1)"

definition build_db_snapshot :: "'v env \<Rightarrow> 'v world \<Rightarrow> string option \<Rightarrow> string \<times> 'v world" where
  "build_db_snapshot env w customer_identifier =
     (let lines = [''Database URI: '' @ db_uri env, ''Discovered tables:'']
      in case get_tables env w of
           (Inl e, w1) \<Rightarrow> (''(Failed to inspect database tables: '' @ technical_details e @ '')'', w1)
         | (Inr tables, w1) \<Rightarrow>
             if tables = [] then (''(No tables found in the database.)'', w1)
             else (case snapshot_tables env customer_identifier tables lines w1 of
                     (lines1, w2) \<Rightarrow> (join ''\<newline>'' lines1, w2)))"

definition billing_build_llm :: "'v env \<Rightarrow> exn + unit" where
  "billing_build_llm env =
     (if \<not> truthy_str (openai_api_key env)
      then Inl (runtime_error ''OPENAI_API_KEY is not set. Please add it to your .env file.'')
      else Inr ())"

definition process_billing_query ::
  "'v env \<Rightarrow> 'v world \<Rightarrow> string option \<Rightarrow> string \<Rightarrow> (exn + string) \<times> 'v world" where
  "process_billing_query env w customer_identifier query_text =
     (case build_db_snapshot env w customer_identifier of
        (db_snapshot, w1) \<Rightarrow>
          (case billing_build_llm env of
             Inl e \<Rightarrow> (Inl e, w1)
           | Inr u \<Rightarrow>
               (let ident = (if truthy_str customer_identifier then the customer_identifier else ''unknown'')
                in (crew_kickoff env (calls w1) ident query_text db_snapshot,
                    record_call (CrewKickoff ident query_text db_snapshot) w1))))"

section \<open>agents/network\_agents.py\<close>

definition build_client :: "'v env \<Rightarrow> exn + unit" where
  "build_client env =
     (if \<not> truthy_str (openai_api_key env)
      then Inl (runtime_error ''Missing OPENAI_API_KEY in your environment or .env'')
      else Inr ())"

definition diagnostics_system_prompt :: string where
  "diagnostics_system_prompt =
     ''\<newline>'' @
     ''You are a Telecom Network Diagnostics Specialist.\<newline>'' @
     ''Analyze network issues including:\<newline>'' @
     ''- slow internet\<newline>'' @
     ''- no signal\<newline>'' @
     ''- call drops\<newline>'' @
     ''- VoLTE not working\<newline>'' @
     ''- 5G issues\<newline>'' @
     ''- SIM/network registration failures\<newline>'' @
     ''\<newline>'' @
     ''Follow this structure:\<newline>'' @
     ''1. Identify possible root causes\<newline>'' @
     ''2. Check if it is device-related or network-area-related\<newline>'' @
     ''3. Mention what parameters need to be checked (signal strength, APN, VoLTE toggle)\<newline>'' @
     ''4. Give a technical summary (NOT customer-facing)\<newline>''"

definition diagnostics_message :: "string \<Rightarrow> string option \<Rightarrow> string" where
  "diagnostics_message query_text customer_id =
     ''Customer identifier: '' @ str_opt customer_id @ ''\<newline>'' @
     ''Reported issue: '' @ query_text @ ''\<newline>'' @
     ''Generate your technical diagnostic analysis:''"

definition resolution_system_prompt :: string where
  "resolution_system_prompt =
     ''\<newline>'' @
     ''You are a Telecom Network Resolution Specialist.\<newline>'' @
     ''Your job is to convert technical diagnostics into:\<newline>'' @
     ''- a clear explanation\<newline>'' @
     ''- friendly language\<newline>'' @
     ''- 3'' @ [CHR 0xE2, CHR 0x80, CHR 0x93] @ ''5 clear steps the customer can follow\<newline>'' @
     ''- a possible root cause\<newline>'' @
     ''- optional tips to prevent it in future\<newline>'' @
     ''\<newline>'' @
     ''Do NOT be too technical. Be helpful.\<newline>''"

definition resolution_message :: "string \<Rightarrow> string" where
  "resolution_message diagnostics_summary =
     ''Here is the technical diagnostics summary from the engineering system:\<newline>'' @
     ''\<newline>'' @
     diagnostics_summary @ ''\<newline>'' @
     ''\<newline>'' @
     ''Convert this into a helpful customer-facing explanation with steps.''"

text \<open>One \<open>client.chat.completions.create\<close> call, recorded with its arguments.\<close>

definition chat_completion ::
  "'v env \<Rightarrow> 'v world \<Rightarrow> string \<Rightarrow> string \<Rightarrow> string \<Rightarrow> (exn + string) \<times> 'v world" where
  "chat_completion env w system_prompt message temperature =
     (chat_create env (calls w) (openai_model env) system_prompt message temperature,
      record_call (ChatCompletion (openai_model env) system_prompt message temperature) w)"

definition diagnostics_agent ::
  "'v env \<Rightarrow> 'v world \<Rightarrow> string \<Rightarrow> string option \<Rightarrow> (exn + string) \<times> 'v world" where
  "diagnostics_agent env w query_text customer_id =
     (case build_client env of
        Inl e \<Rightarrow> (Inl e, w)
      | Inr u \<Rightarrow>
          chat_completion env w diagnostics_system_prompt
            (diagnostics_message query_text customer_id) ''0.2'')"

definition resolution_agent :: "'v env \<Rightarrow> 'v world \<Rightarrow> string \<Rightarrow> (exn + string) \<times> 'v world" where
  "resolution_agent env w diagnostics_summary =
     (case build_client env of
        Inl e \<Rightarrow> (Inl e, w)
      | Inr u \<Rightarrow>
          chat_completion env w resolution_system_prompt
            (resolution_message diagnostics_summary) ''0.4'')"

definition network_response :: "string \<Rightarrow> string \<Rightarrow> string" where
  "network_response diagnostics resolution =
     ''### Network Diagnostics (Internal)\<newline>'' @
     diagnostics @ ''\<newline>'' @
     ''\<newline>'' @
     ''### Final Explanation\<newline>'' @
     resolution"

definition network_failure :: "exn \<Rightarrow> string" where
  "network_failure e = ''Network troubleshooting failed: '' @ technical_details e"

text \<open>The whole body is one \<open>try\<close>: the function returns text on every path.\<close>

definition process_network_query ::
  "'v env \<Rightarrow> 'v world \<Rightarrow> string \<Rightarrow> string option \<Rightarrow> (exn + string) \<times> 'v world" where
  "process_network_query env w query_text customer_identifier =
     (case diagnostics_agent env w query_text customer_identifier of
        (Inl e, w1) \<Rightarrow> (Inr (network_failure e), w1)
      | (Inr diagnostics, w1) \<Rightarrow>
          (case resolution_agent env w1 diagnostics of
             (Inl e, w2) \<Rightarrow> (Inr (network_failure e), w2)
           | (Inr resolution, w2) \<Rightarrow> (Inr (network_response diagnostics resolution), w2)))"

section \<open>agents/service\_agents.py\<close>

record 'v profile =
  customer :: "'v row option"
  current_plan :: "'v row option"
  usage :: "'v row option"
  plans :: "'v row list option"

definition plans_sql :: string where
  "plans_sql = ''SELECT * FROM service_plans''"

definition customer_sql :: string where
  "customer_sql = ''SELECT * FROM customers WHERE email = :email LIMIT 1''"

definition usage_sql :: string where
  "usage_sql =
     ''\<newline>'' @
     ''            SELECT * FROM customer_usage\<newline>'' @
     ''            WHERE customer_id = :cid\<newline>'' @
     ''            ORDER BY billing_period_end DESC\<newline>'' @
     ''            LIMIT 1\<newline>'' @
     ''            ''"

text \<open>The loop \<open>for p in profile["plans"]\<close>: the first plan whose \<open>plan_id\<close> equals the
  customer's, if any.\<close>

fun find_plan :: "'v env \<Rightarrow> 'v \<Rightarrow> 'v row list \<Rightarrow> exn + 'v row option" where
  "find_plan env plan_id [] = Inr None"
| "find_plan env plan_id (p # ps) =
     (case getitem p ''plan_id'' of
        Inl e \<Rightarrow> Inl e
      | Inr v \<Rightarrow> if val_eq env v plan_id then Inr (Some p) else find_plan env plan_id ps)"

definition load_plans :: "'v env \<Rightarrow> 'v world \<Rightarrow> 'v list \<Rightarrow> (exn + 'v row list option) \<times> 'v world" where
  "load_plans env w tables =
     (if py_in env ''service_plans'' tables
      then (case run_query env w plans_sql [] of
              (Inl e, w1) \<Rightarrow> (Inl e, w1)
            | (Inr rows, w1) \<Rightarrow> (Inr (Some rows), w1))
      else (Inr None, w))"

definition load_current_plan :: "'v env \<Rightarrow> 'v row \<Rightarrow> 'v row list option \<Rightarrow> exn + 'v row option" where
  "load_current_plan env cust all_plans =
     (case map_of cust ''service_plan_id'' of
        None \<Rightarrow> Inr None
      | Some plan_id \<Rightarrow>
          (case all_plans of
             None \<Rightarrow> Inr None
           | Some ps \<Rightarrow> if val_truthy env plan_id \<and> ps \<noteq> [] then find_plan env plan_id ps else Inr None))"

definition load_usage :: "'v env \<Rightarrow> 'v world \<Rightarrow> 'v list \<Rightarrow> 'v row \<Rightarrow> (exn + 'v row option) \<times> 'v world" where
  "load_usage env w tables cust =
     (if py_in env ''customer_usage'' tables
      then (case getitem cust ''customer_id'' of
              Inl e \<Rightarrow> (Inl e, w)
            | Inr cid \<Rightarrow>
                (case run_query env w usage_sql [(''cid'', cid)] of
                   (Inl e, w1) \<Rightarrow> (Inl e, w1)
                 | (Inr usage_rows, w1) \<Rightarrow>
                     (Inr (if usage_rows \<noteq> [] then Some (hd usage_rows) else None), w1)))
      else (Inr None, w))"

definition load_customer_profile ::
  "'v env \<Rightarrow> 'v world \<Rightarrow> string option \<Rightarrow> (exn + 'v profile) \<times> 'v world" where
  "load_customer_profile env w customer_email =
     (case get_tables env w of
        (Inl e, w1) \<Rightarrow> (Inl e, w1)
      | (Inr tables, w1) \<Rightarrow>
     (case load_plans env w1 tables of
        (Inl e, w2) \<Rightarrow> (Inl e, w2)
      | (Inr all_plans, w2) \<Rightarrow>
          let prof = \<lparr>customer = None, current_plan = None, usage = None, plans = all_plans\<rparr>
          in if \<not> truthy_str customer_email then (Inr prof, w2)
             else
     (case run_query env w2 customer_sql [(''email'', val_of_str env (the customer_email))] of
        (Inl e, w3) \<Rightarrow> (Inl e, w3)
      | (Inr rows, w3) \<Rightarrow>
          if rows = [] then (Inr prof, w3)
          else
            let cust = hd rows
            in
     (case load_current_plan env cust all_plans of
        Inl e \<Rightarrow> (Inl e, w3)
      | Inr cur \<Rightarrow>
     (case load_usage env w3 tables cust of
        (Inl e, w4) \<Rightarrow> (Inl e, w4)
      | (Inr usg, w4) \<Rightarrow>
          (Inr (prof\<lparr>customer := Some cust, current_plan := cur, usage := usg\<rparr>), w4))))))"

text \<open>\<open>"Unlimited" if p[flag] else f"{p[amount]}{unit}"\<close>.\<close>

definition allowance :: "'v env \<Rightarrow> 'v row \<Rightarrow> string \<Rightarrow> string \<Rightarrow> string \<Rightarrow> exn + string" where
  "allowance env p flag amount unit_text =
     bind_exn (getitem p flag) (\<lambda>f.
       if val_truthy env f then Inr ''Unlimited''
       else bind_exn (getitem p amount) (\<lambda>a. Inr (val_str env a @ unit_text)))"

definition rupee :: string where
  "rupee = [CHR 0xE2, CHR 0x82, CHR 0xB9]"

definition format_plan :: "'v env \<Rightarrow> 'v row \<Rightarrow> exn + string" where
  "format_plan env p =
     bind_exn (allowance env p ''unlimited_data'' ''data_limit_gb'' ''GB'') (\<lambda>data.
     bind_exn (allowance env p ''unlimited_voice'' ''voice_minutes'' '' min'') (\<lambda>voice.
     bind_exn (allowance env p ''unlimited_sms'' ''sms_count'' '' SMS'') (\<lambda>sms.
     bind_exn (getitem p ''name'') (\<lambda>name.
     bind_exn (getitem p ''plan_id'') (\<lambda>plan_id.
     bind_exn (getitem p ''monthly_cost'') (\<lambda>monthly_cost.
       Inr (''- '' @ val_str env name @ '' ('' @ val_str env plan_id @ ''): '' @ rupee @
            val_str env monthly_cost @ '' / month | '' @ data @ '' | '' @ voice @ '' | '' @ sms)))))))"

definition plan_text :: "'v env \<Rightarrow> 'v row list \<Rightarrow> exn + string" where
  "plan_text env ps =
     (if ps \<noteq> [] then bind_exn (traverse (format_plan env) ps) (\<lambda>ls. Inr (join ''\<newline>'' ls))
      else Inr ''(No plans)'')"

text \<open>\<open>if customer and current_plan\<close>: both present and, being dicts, not empty.\<close>

definition customer_text :: "'v env \<Rightarrow> 'v row option \<Rightarrow> 'v row option \<Rightarrow> exn + string" where
  "customer_text env cust cur =
     (case (cust, cur) of
        (Some c, Some p) \<Rightarrow>
          if c \<noteq> [] \<and> p \<noteq> [] then
            bind_exn (getitem c ''customer_id'') (\<lambda>cid.
            bind_exn (getitem c ''name'') (\<lambda>cname.
            bind_exn (getitem p ''name'') (\<lambda>pname.
            bind_exn (getitem p ''plan_id'') (\<lambda>pid.
            bind_exn (getitem p ''monthly_cost'') (\<lambda>cost.
              Inr (''Customer ID: '' @ val_str env cid @ ''\<newline>'' @
                   ''Name: '' @ val_str env cname @ ''\<newline>'' @
                   ''Current Plan: '' @ val_str env pname @ '' ('' @ val_str env pid @ '')\<newline>'' @
                   ''Monthly Cost: '' @ rupee @ val_str env cost @ ''\<newline>''))))))
          else Inr ''No customer profile available.\<newline>''
      | _ \<Rightarrow> Inr ''No customer profile available.\<newline>'')"

definition usage_text :: "'v env \<Rightarrow> 'v row option \<Rightarrow> exn + string" where
  "usage_text env usg =
     (case usg of
        Some u \<Rightarrow>
          if u \<noteq> [] then
            bind_exn (getitem u ''billing_period_start'') (\<lambda>pstart.
            bind_exn (getitem u ''billing_period_end'') (\<lambda>pend.
            bind_exn (getitem u ''data_used_gb'') (\<lambda>data.
            bind_exn (getitem u ''voice_minutes_used'') (\<lambda>voice.
            bind_exn (getitem u ''sms_count_used'') (\<lambda>sms.
            bind_exn (getitem u ''total_bill_amount'') (\<lambda>total.
              Inr (''Billing Period: '' @ val_str env pstart @
                     '' '' @ [CHR 0xE2, CHR 0x86, CHR 0x92] @ '' '' @ val_str env pend @ ''\<newline>'' @
                   ''Last Billing Period Usage:\<newline>'' @
                   ''- Data: '' @ val_str env data @ '' GB\<newline>'' @
                   ''- Voice: '' @ val_str env voice @ '' min\<newline>'' @
                   ''- SMS: '' @ val_str env sms @ ''\<newline>'' @
                   ''- Total Bill Amount: '' @ rupee @ val_str env total @ ''\<newline>'')))))))
          else Inr ''No usage data available.\<newline>''
      | None \<Rightarrow> Inr ''No usage data available.\<newline>'')"

definition service_build_llm :: "'v env \<Rightarrow> exn + unit" where
  "service_build_llm env =
     (if \<not> truthy_str (openai_api_key env) then Inl (runtime_error ''Missing OPENAI_API_KEY in .env'')
      else Inr ())"

definition plan_system_message :: string where
  "plan_system_message =
     ''\<newline>'' @
     ''You are a Telecom Plan Optimization Expert for an Indian telecom operator.\<newline>'' @
     '' \<newline>'' @
     ''You must recommend 1'' @ [CHR 0xE2, CHR 0x80, CHR 0x93] @ ''3 plans based on:\<newline>'' @
     ''1. User'' @ [CHR 0x27] @
     ''s request in natural language (e.g., cheaper plan, more data, family plan, add-on packs).\<newline>'' @
     ''2. Current plan vs actual usage (data, voice, SMS).\<newline>'' @
     ''3. Cost savings or upgrade benefits.\<newline>'' @
     ''4. All available plans from '' @ [CHR 0x60] @ ''service_plans'' @ [CHR 0x60] @ ''.\<newline>'' @
     ''5. Unlimited data/voice/SMS rules.\<newline>'' @
     ''6. Whether the current plan is already ideal.\<newline>'' @
     '' \<newline>'' @
     ''Also consider add-on packs or upgrades if the user is exceeding data/voice/SMS limits.\<newline>'' @
     ''If the question is specifically about '' @ [CHR 0x22] @ ''add-on packs'' @ [CHR 0x22] @
     '', clearly list suitable add-on options\<newline>'' @
     ''based on their current plan and usage, and explain when they should upgrade the base plan instead.\<newline>'' @
     '' \<newline>'' @
     ''Respond with:\<newline>'' @
     ''- A short summary\<newline>'' @
     ''- A ranked list of recommended plans and/or add-on packs\<newline>'' @
     ''- Reasoning in bullet points\<newline>'' @
     ''                ''"

text \<open>The user template with its four variables \<open>{query}\<close>, \<open>{customer_profile}\<close>,
  \<open>{usage}\<close> and \<open>{plans}\<close> filled in.\<close>

definition plan_user_message :: "string \<Rightarrow> string \<Rightarrow> string \<Rightarrow> string \<Rightarrow> string" where
  "plan_user_message user_query customer_profile usage_blob plans_blob =
     ''\<newline>'' @
     ''User Query:\<newline>'' @
     user_query @ ''\<newline>'' @
     '' \<newline>'' @
     ''Customer:\<newline>'' @
     customer_profile @ ''\<newline>'' @
     '' \<newline>'' @
     ''Usage:\<newline>'' @
     usage_blob @ ''\<newline>'' @
     '' \<newline>'' @
     ''Available Plans:\<newline>'' @
     plans_blob @ ''\<newline>'' @
     '' \<newline>'' @
     ''Provide the best personalized plan/add-on recommendations.\<newline>'' @
     ''                ''"

definition recommend_personalized_plan ::
  "'v env \<Rightarrow> 'v world \<Rightarrow> string option \<Rightarrow> string \<Rightarrow> (exn + string) \<times> 'v world" where
  "recommend_personalized_plan env w customer_email user_query =
     (case load_customer_profile env w customer_email of
        (Inl e, w1) \<Rightarrow> (Inl e, w1)
      | (Inr prof, w1) \<Rightarrow>
          let ps = (case plans prof of None \<Rightarrow> [] | Some xs \<Rightarrow> xs)
          in
     (case plan_text env ps of
        Inl e \<Rightarrow> (Inl e, w1)
      | Inr plans_blob \<Rightarrow>
     (case customer_text env (customer prof) (current_plan prof) of
        Inl e \<Rightarrow> (Inl e, w1)
      | Inr customer_profile \<Rightarrow>
     (case usage_text env (usage prof) of
        Inl e \<Rightarrow> (Inl e, w1)
      | Inr usage_blob \<Rightarrow>
     (case service_build_llm env of
        Inl e \<Rightarrow> (Inl e, w1)
      | Inr u \<Rightarrow>
          let user_message = plan_user_message user_query customer_profile usage_blob plans_blob
          in (llm_invoke env (calls w1) (openai_model env) plan_system_message user_message,
              record_call (LlmInvoke (openai_model env) plan_system_message user_message) w1))))))"

section \<open>agents/knowledge\_agents.py\<close>

definition init_llama_settings :: "'v env \<Rightarrow> exn + unit" where
  "init_llama_settings env =
     (if \<not> truthy_str (openai_api_key env)
      then Inl (runtime_error ''OPENAI_API_KEY is not set. Please add it to your .env file.'')
      else Inr ())"

definition build_default :: "'v env \<Rightarrow> 'v world \<Rightarrow> (exn + unit) \<times> 'v world" where
  "build_default env w =
     (case build_index_default env of
        Inl e \<Rightarrow> (Inl e, record_call BuildIndexDefault w)
      | Inr u \<Rightarrow> (Inr (), (record_call BuildIndexDefault w)\<lparr>index_loaded := True\<rparr>))"

text \<open>\<open>_get_index\<close>: the index is built on first use and kept in the global \<open>_INDEX\<close>.\<close>

definition get_index :: "'v env \<Rightarrow> 'v world \<Rightarrow> (exn + unit) \<times> 'v world" where
  "get_index env w =
     (if index_loaded w then (Inr (), w)
      else
        (case init_llama_settings env of
           Inl e \<Rightarrow> (Inl e, w)
         | Inr u \<Rightarrow>
             if has_faiss env then
               (case build_index_faiss env of
                  Inl e \<Rightarrow> build_default env (record_call BuildIndexFaiss w)
                | Inr u \<Rightarrow> (Inr (), (record_call BuildIndexFaiss w)\<lparr>index_loaded := True\<rparr>))
             else build_default env w))"

definition full_question :: "string \<Rightarrow> string option \<Rightarrow> string" where
  "full_question query_text customer_email =
     ''You are a Telecom Technical Support Assistant. Use ONLY the provided '' @
     ''documentation and retrieved context to answer precisely.\<newline>\<newline>'' @
     ''Customer: '' @ (if truthy_str customer_email then the customer_email else ''unknown'') @ ''\<newline>'' @
     ''Question: '' @ query_text @ ''\<newline>\<newline>'' @
     ''If the exact steps are not clearly in the docs, say that and provide a '' @
     ''generic best-practice answer, noting that details may vary by device/operator.''"

text \<open>Two \<open>try\<close> blocks, around \<open>_get_index()\<close> and around \<open>query_engine.query\<close>; the call
  \<open>index.as_query_engine(similarity_top_k=3)\<close> stands between them, outside both.\<close>

definition answer_knowledge_query ::
  "'v env \<Rightarrow> 'v world \<Rightarrow> string \<Rightarrow> string option \<Rightarrow> (exn + string) \<times> 'v world" where
  "answer_knowledge_query env w query_text customer_email =
     (case get_index env w of
        (Inl e, w1) \<Rightarrow>
          (Inr (''Knowledge assistant is not configured correctly.\<newline>\<newline>'' @
                ''Technical details: '' @ technical_details e), w1)
      | (Inr u, w1) \<Rightarrow>
          (case as_query_engine env of
             Inl e \<Rightarrow> (Inl e, record_call AsQueryEngine w1)
           | Inr u \<Rightarrow>
               let w2 = record_call AsQueryEngine w1;
                   question = full_question query_text customer_email
               in (case engine_query env (calls w2) question of
                     Inl e \<Rightarrow>
                       (Inr (''Sorry, I ran into a problem while searching the knowledge base.\<newline>\<newline>'' @
                             ''Technical details: '' @ technical_details e),
                        record_call (EngineQuery question) w2)
                   | Inr response \<Rightarrow> (Inr response, record_call (EngineQuery question) w2))))"

section \<open>orchestration/state.py\<close>

record chat_message =
  role :: string
  content :: string

text \<open>\<open>TelecomAssistantState\<close>. A dict is the list of its items in insertion order;
  \<open>customer_info\<close> maps a key to a string or to \<open>None\<close>.\<close>

record state =
  query :: string
  customer_info :: "(string \<times> string option) list"
  classification :: string
  intermediate_responses :: "(string \<times> string) list"
  final_response :: string
  chat_history :: "chat_message list"

text \<open>\<open>customer_info.get(key)\<close>: \<open>None\<close> for a missing key.\<close>

definition info_get :: "(string \<times> string option) list \<Rightarrow> string \<Rightarrow> string option" where
  "info_get d k = (case map_of d k of None \<Rightarrow> None | Some v \<Rightarrow> v)"

section \<open>orchestration/graph.py\<close>

subsection \<open>Classification and routing\<close>

definition billing_keywords :: "string list" where
  "billing_keywords = [''bill'', ''charge'', ''payment'', ''account'', ''due date'', ''invoice'']"

definition network_keywords :: "string list" where
  "network_keywords =
     [''network'', ''signal'', ''connection'', ''call'', ''data'', ''slow'', ''internet'', ''5g'', ''4g'']"

definition plan_keywords :: "string list" where
  "plan_keywords = [''plan'', ''recommend'', ''upgrade'', ''downgrade'', ''best'', ''family'', ''pack'']"

definition howto_keywords :: "string list" where
  "howto_keywords =
     [''how'', ''what'', ''configure'', ''setup'', ''apn'', ''volte'', ''roaming'', ''esim'']"

text \<open>\<open>any(w in q for w in ws)\<close>.\<close>

definition any_in :: "string list \<Rightarrow> string \<Rightarrow> bool" where
  "any_in ws q = list_ex (\<lambda>w. str_in w q) ws"

definition classify_query :: "'v env \<Rightarrow> state \<Rightarrow> state" where
  "classify_query env st =
     (let q = str_lower env (query st);
          cls =
            (if any_in billing_keywords q then ''billing_account''
             else if any_in network_keywords q then ''network_troubleshooting''
             else if any_in plan_keywords q then ''service_recommendation''
             else if any_in howto_keywords q then ''knowledge_retrieval''
             else ''fallback'')
      in st\<lparr>classification := cls\<rparr>)"

definition route_query :: "state \<Rightarrow> string" where
  "route_query st =
     (let cls = classification st
      in if cls = ''billing_account'' then ''crew_ai_node''
         else if cls = ''network_troubleshooting'' then ''autogen_node''
         else if cls = ''service_recommendation'' then ''langchain_node''
         else if cls = ''knowledge_retrieval'' then ''llamaindex_node''
         else ''fallback_handler'')"

subsection \<open>Backend nodes\<close>

definition crew_ai_node :: "'v env \<Rightarrow> 'v world \<Rightarrow> state \<Rightarrow> (exn + state) \<times> 'v world" where
  "crew_ai_node env w st =
     (let info = customer_info st;
          customer_identifier = py_or (info_get info ''email'') (info_get info ''id'')
      in case process_billing_query env w customer_identifier (query st) of
           (Inl e, w1) \<Rightarrow>
             (Inr (st\<lparr>intermediate_responses :=
                     [(''crew_ai'',
                       ''Sorry, I ran into a problem while analyzing your billing question.\<newline>\<newline>'' @
                       ''Technical details: '' @ technical_details e)]\<rparr>), w1)
         | (Inr answer, w1) \<Rightarrow> (Inr (st\<lparr>intermediate_responses := [(''crew_ai'', answer)]\<rparr>), w1))"

definition autogen_node :: "'v env \<Rightarrow> 'v world \<Rightarrow> state \<Rightarrow> (exn + state) \<times> 'v world" where
  "autogen_node env w st =
     (let info = customer_info st;
          customer_identifier = py_or (info_get info ''email'') (info_get info ''id'')
      in case process_network_query env w (query st) customer_identifier of
           (Inl e, w1) \<Rightarrow>
             (Inr (st\<lparr>intermediate_responses :=
                     [(''autogen'',
                       ''Sorry, I ran into a problem while diagnosing your network issue.\<newline>\<newline>'' @
                       ''Technical details: '' @ technical_details e)]\<rparr>), w1)
         | (Inr answer, w1) \<Rightarrow> (Inr (st\<lparr>intermediate_responses := [(''autogen'', answer)]\<rparr>), w1))"

definition langchain_node :: "'v env \<Rightarrow> 'v world \<Rightarrow> state \<Rightarrow> (exn + state) \<times> 'v world" where
  "langchain_node env w st =
     (let customer_email = info_get (customer_info st) ''email''
      in case recommend_personalized_plan env w customer_email (query st) of
           (Inl e, w1) \<Rightarrow>
             (Inr (st\<lparr>intermediate_responses :=
                     [(''langchain'',
                       ''Sorry, I had trouble generating a plan recommendation.\<newline>\<newline>'' @
                       ''Technical details: '' @ technical_details e)]\<rparr>), w1)
         | (Inr answer, w1) \<Rightarrow> (Inr (st\<lparr>intermediate_responses := [(''langchain'', answer)]\<rparr>), w1))"

text \<open>This node calls its handler outside any \<open>try\<close>.\<close>

definition llamaindex_node :: "'v env \<Rightarrow> 'v world \<Rightarrow> state \<Rightarrow> (exn + state) \<times> 'v world" where
  "llamaindex_node env w st =
     (let customer_email = info_get (customer_info st) ''email''
      in case answer_knowledge_query env w (query st) customer_email of
           (Inl e, w1) \<Rightarrow> (Inl e, w1)
         | (Inr answer, w1) \<Rightarrow> (Inr (st\<lparr>intermediate_responses := [(''llamaindex'', answer)]\<rparr>), w1))"

definition fallback_text :: string where
  "fallback_text =
     ''I'' @ [CHR 0xE2, CHR 0x80, CHR 0x99] @ ''m not sure how to handle that.\<newline>'' @
     ''\<newline>'' @
     ''You can ask about:\<newline>'' @
     ''- Billing & account (charges, due dates, invoices)\<newline>'' @
     ''- Network issues (slow internet, no signal, call drops)\<newline>'' @
     ''- Plan recommendations (upgrade/downgrade, family plans)\<newline>'' @
     ''- Technical how-to (APN settings, VoLTE, roaming, eSIM)''"

definition fallback_handler :: "'v env \<Rightarrow> 'v world \<Rightarrow> state \<Rightarrow> (exn + state) \<times> 'v world" where
  "fallback_handler env w st = (Inr (st\<lparr>intermediate_responses := [(''fallback'', fallback_text)]\<rparr>), w)"

subsection \<open>Response aggregation\<close>

definition something_went_wrong :: string where
  "something_went_wrong = ''Something went wrong while generating a response.''"

definition formulate_response :: "state \<Rightarrow> state" where
  "formulate_response st =
     (let responses = intermediate_responses st;
          final = (if responses \<noteq> [] then snd (hd responses) else something_went_wrong)
      in st\<lparr>final_response := final\<rparr>)"

subsection \<open>The compiled graph\<close>

text \<open>
  \<open>create_graph\<close> wires \<open>classify_query\<close> as the entry point, a conditional edge that
  sends the name \<open>route_query\<close> returns to the node of that name, an edge from every
  backend node to \<open>formulate_response\<close>, and from there to \<open>END\<close>. Each node returns the
  whole state, which replaces the graph's state. A name outside the edge's mapping has no
  node to go to.
\<close>

definition run_node :: "'v env \<Rightarrow> 'v world \<Rightarrow> string \<Rightarrow> state \<Rightarrow> (exn + state) \<times> 'v world" where
  "run_node env w name st =
     (if name = ''crew_ai_node'' then crew_ai_node env w st
      else if name = ''autogen_node'' then autogen_node env w st
      else if name = ''langchain_node'' then langchain_node env w st
      else if name = ''llamaindex_node'' then llamaindex_node env w st
      else if name = ''fallback_handler'' then fallback_handler env w st
      else (Inl (key_error name), w))"

definition route_and_handle :: "'v env \<Rightarrow> 'v world \<Rightarrow> state \<Rightarrow> (exn + state) \<times> 'v world" where
  "route_and_handle env w st = run_node env w (route_query st) st"

definition graph_invoke :: "'v env \<Rightarrow> 'v world \<Rightarrow> state \<Rightarrow> (exn + state) \<times> 'v world" where
  "graph_invoke env w st =
     (case route_and_handle env w (classify_query env st) of
        (Inl e, w1) \<Rightarrow> (Inl e, w1)
      | (Inr st1, w1) \<Rightarrow> (Inr (formulate_response st1), w1))"

section \<open>ui/streamlit\_app.py\<close>

text \<open>
  \<open>st.session_state\<close> once \<open>init_session\<close> has run. The compiled graph is held exactly when
  \<open>graph_loaded\<close> is true. A browser session that has not run the script yet has no
  session state (\<open>None\<close> below).
\<close>

record session =
  authenticated :: bool
  user_type :: "string option"
  email :: "string option"
  session_chat_history :: "chat_message list"
  graph_loaded :: bool
  graph_error :: "string option"

definition init_session :: "'v env \<Rightarrow> session option \<Rightarrow> session" where
  "init_session env ss =
     (case ss of
        Some s \<Rightarrow> s
      | None \<Rightarrow>
          \<lparr>authenticated = False, user_type = None, email = None, session_chat_history = [],
           graph_loaded = (case graph_compile env of Inl e \<Rightarrow> False | Inr u \<Rightarrow> True),
           graph_error = (case graph_compile env of Inl e \<Rightarrow> Some (exn_msg e) | Inr u \<Rightarrow> None)\<rparr>)"

definition run_query_through_graph :: "'v env \<Rightarrow> 'v world \<Rightarrow> session \<Rightarrow> string \<Rightarrow> string \<times> 'v world" where
  "run_query_through_graph env w s query_text =
     (if \<not> graph_loaded s then
        ([CHR 0xE2, CHR 0x9A, CHR 0xA0, CHR 0xEF, CHR 0xB8, CHR 0x8F] @
         '' System initialization error: '' @ str_opt (graph_error s), w)
      else
        let st = \<lparr>query = query_text, customer_info = [(''email'', email s)], classification = [],
                  intermediate_responses = [], final_response = [],
                  chat_history = session_chat_history s\<rparr>
        in case graph_invoke env w st of
             (Inl e, w1) \<Rightarrow>
               ([CHR 0xE2, CHR 0x9D, CHR 0x8C] @
                '' Error while processing your request (possible DB/agent issue): '' @ exn_msg e, w1)
           | (Inr result, w1) \<Rightarrow> (final_response result, w1))"

text \<open>What the user did to cause this run of the script: nothing, a click on Login with
  the e-mail and the user type entered, a click on Logout, or a line sent to the chat
  input. A widget that the run does not draw cannot fire.\<close>

datatype ui_event = NoInput | LoginClick string string | LogoutClick | ChatSubmit string

text \<open>\<open>sidebar_login\<close> returns the session and whether \<open>st.rerun()\<close> ended the run.\<close>

definition sidebar_login :: "ui_event \<Rightarrow> session \<Rightarrow> session \<times> bool" where
  "sidebar_login ev s =
     (if \<not> authenticated s then
        (case ev of
           LoginClick email_input user_type_input \<Rightarrow>
             if email_input \<noteq> [] \<and> str_in ''@'' email_input
             then (s\<lparr>authenticated := True, user_type := Some user_type_input,
                     email := Some email_input\<rparr>, True)
             else (s, False)
         | _ \<Rightarrow> (s, False))
      else
        (case ev of
           LogoutClick \<Rightarrow>
             (s\<lparr>authenticated := False, user_type := None, email := None,
                session_chat_history := []\<rparr>, True)
         | _ \<Rightarrow> (s, False)))"

definition customer_view :: "'v env \<Rightarrow> 'v world \<Rightarrow> ui_event \<Rightarrow> session \<Rightarrow> session \<times> 'v world" where
  "customer_view env w ev s =
     (case ev of
        ChatSubmit prompt \<Rightarrow>
          if prompt \<noteq> [] then
            let s1 = s\<lparr>session_chat_history :=
                        session_chat_history s @ [\<lparr>role = ''user'', content = prompt\<rparr>]\<rparr>
            in (case run_query_through_graph env w s1 prompt of
                  (response, w1) \<Rightarrow>
                    (s1\<lparr>session_chat_history :=
                          session_chat_history s1 @ [\<lparr>role = ''assistant'', content = response\<rparr>]\<rparr>, w1))
          else (s, w)
      | _ \<Rightarrow> (s, w))"

text \<open>One run of \<open>main\<close>. The admin view and the logged-out page write nothing to the
  session. After \<open>st.rerun()\<close> the script runs again with no input.\<close>

definition script_run ::
  "'v env \<Rightarrow> 'v world \<Rightarrow> ui_event \<Rightarrow> session option \<Rightarrow> (session \<times> 'v world) \<times> bool" where
  "script_run env w ev ss =
     (case sidebar_login ev (init_session env ss) of
        (s1, rerun) \<Rightarrow>
          if rerun then ((s1, w), True)
          else if authenticated s1 \<and> user_type s1 = Some ''Customer''
          then (customer_view env w ev s1, False)
          else ((s1, w), False))"

definition main_run :: "'v env \<Rightarrow> 'v world \<Rightarrow> ui_event \<Rightarrow> session option \<Rightarrow> session \<times> 'v world" where
  "main_run env w ev ss =
     (case script_run env w ev ss of
        ((s1, w1), rerun) \<Rightarrow> if rerun then fst (script_run env w1 NoInput (Some s1)) else (s1, w1))"

section \<open>The labels and the node names\<close>

text \<open>The five labels \<open>classify_query\<close> assigns, and the five node names of the
  conditional edge in \<open>create_graph\<close>, in the order of the source.\<close>

definition intent_labels :: "string list" where
  "intent_labels =
     [''billing_account'', ''network_troubleshooting'', ''service_recommendation'',
      ''knowledge_retrieval'', ''fallback'']"

definition handler_nodes :: "string list" where
  "handler_nodes =
     [''crew_ai_node'', ''autogen_node'', ''langchain_node'', ''llamaindex_node'', ''fallback_handler'']"

section \<open>A sample deployment\<close>

text \<open>
  A small store and canned model answers, for running the definitions on concrete
  requests. Its cells are text or \<open>NULL\<close>; \<open>str.lower\<close> is given on ASCII letters, where
  it is the table below.
\<close>

definition ascii_lower :: "string \<Rightarrow> string" where
  "ascii_lower s =
     map (\<lambda>c. case map_of (zip ''ABCDEFGHIJKLMNOPQRSTUVWXYZ'' ''abcdefghijklmnopqrstuvwxyz'') c of
                 None \<Rightarrow> c | Some d \<Rightarrow> d) s"

definition sample_customer :: "string option row" where
  "sample_customer =
     [(''customer_id'', Some ''C001''), (''name'', Some ''Asha''),
      (''email'', Some ''asha@example.com''), (''service_plan_id'', Some ''STD_500'')]"

definition basic_plan :: "string option row" where
  "basic_plan =
     [(''plan_id'', Some ''BASIC_100''), (''name'', Some ''Basic''), (''monthly_cost'', Some ''199''),
      (''unlimited_data'', None), (''data_limit_gb'', Some ''2''),
      (''unlimited_voice'', None), (''voice_minutes'', Some ''100''),
      (''unlimited_sms'', None), (''sms_count'', Some ''50'')]"

definition standard_plan :: "string option row" where
  "standard_plan =
     [(''plan_id'', Some ''STD_500''), (''name'', Some ''Standard''), (''monthly_cost'', Some ''799''),
      (''unlimited_data'', None), (''data_limit_gb'', Some ''6''),
      (''unlimited_voice'', Some ''1''), (''voice_minutes'', None),
      (''unlimited_sms'', Some ''1''), (''sms_count'', None)]"

definition sample_usage :: "string option row" where
  "sample_usage =
     [(''customer_id'', Some ''C001''), (''billing_period_start'', Some ''2023-05-01''),
      (''billing_period_end'', Some ''2023-05-31''), (''data_used_gb'', Some ''3.5''),
      (''voice_minutes_used'', Some ''320''), (''sms_count_used'', Some ''45''),
      (''total_bill_amount'', Some ''799'')]"

definition no_such_column :: exn where
  "no_such_column = \<lparr>exn_type = ''OperationalError'', exn_msg = ''no such column''\<rparr>"

text \<open>The store: tables \<open>customer_usage\<close>, \<open>customers\<close> and \<open>service_plans\<close>, one customer
  \<open>C001\<close> with one usage row, two plans. A \<open>WHERE\<close> on a column the table lacks fails.\<close>

definition sample_execute :: "string \<Rightarrow> (string \<times> string option) list \<Rightarrow> exn + string option row list" where
  "sample_execute sql params =
     (if sql = tables_sql then
        Inr [[(''name'', Some ''customer_usage'')], [(''name'', Some ''customers'')],
             [(''name'', Some ''service_plans'')]]
      else if sql = plans_sql \<or> sql = sample_sql ''service_plans'' then Inr [basic_plan, standard_plan]
      else if sql = sample_sql ''customers'' then Inr [sample_customer]
      else if sql = sample_sql ''customer_usage'' then Inr [sample_usage]
      else if sql = customer_sql then
        Inr (if params = [(''email'', Some ''asha@example.com'')] then [sample_customer] else [])
      else if sql = usage_sql then
        Inr (if params = [(''cid'', Some ''C001'')] then [sample_usage] else [])
      else if sql = filter_sql ''customer_usage'' ''customer_id'' then
        Inr (if params = [(''val'', Some ''C001'')] then [sample_usage] else [])
      else if sql = filter_sql ''customers'' ''customer_id'' then
        Inr (if params = [(''val'', Some ''C001'')] then [sample_customer] else [])
      else if sql = filter_sql ''customers'' ''email'' then
        Inr (if params = [(''val'', Some ''asha@example.com'')] then [sample_customer] else [])
      else Inl no_such_column)"

definition sample_env :: "string option env" where
  "sample_env =
     \<lparr>str_lower = ascii_lower,
      val_of_str = Some,
      val_repr = (\<lambda>v. case v of None \<Rightarrow> ''None'' | Some t \<Rightarrow> [CHR 0x27] @ t @ [CHR 0x27]),
      val_str = str_opt,
      val_truthy = truthy_str,
      val_eq = (=),
      openai_api_key = Some ''sk-test'',
      openai_model = ''gpt-4o-mini'',
      db_uri = ''sqlite:///data/telecom.db'',
      sqlite_execute = sample_execute,
      crew_kickoff = (\<lambda>cs ident q snapshot. Inr ''Your bill is 799.''),
      chat_create = (\<lambda>cs model sys msg temperature.
         if temperature = ''0.2'' then Inr ''Cell congestion.'' else Inr ''Please restart your phone.''),
      llm_invoke = (\<lambda>cs model sys msg. Inr ''Stay on Standard.''),
      has_faiss = False,
      build_index_faiss = Inr (),
      build_index_default = Inr (),
      as_query_engine = Inr (),
      engine_query = (\<lambda>cs question. Inr ''Open Settings.''),
      graph_compile = Inr ()\<rparr>"

text \<open>The same deployment with \<open>OPENAI_MODEL\<close> set to a name the index library does not
  know: building the query engine raises.\<close>

definition unknown_model :: exn where
  "unknown_model = \<lparr>exn_type = ''ValueError'', exn_msg = ''Unknown model''\<rparr>"

definition unknown_model_env :: "string option env" where
  "unknown_model_env = sample_env\<lparr>openai_model := ''my-model'', as_query_engine := Inl unknown_model\<rparr>"

definition fresh_world :: "string option world" where
  "fresh_world = \<lparr>calls = [], index_loaded = False\<rparr>"

definition request :: "string \<Rightarrow> string option \<Rightarrow> state" where
  "request query_text customer_email =
     \<lparr>query = query_text, customer_info = [(''email'', customer_email)], classification = [],
      intermediate_responses = [], final_response = [], chat_history = []\<rparr>"

definition logged_in :: session where
  "logged_in =
     \<lparr>authenticated = True, user_type = Some ''Customer'', email = Some ''asha@example.com'',
      session_chat_history = [\<lparr>role = ''user'', content = ''hello''\<rparr>],
      graph_loaded = True, graph_error = None\<rparr>"

section \<open>The snapshot builder's queries, said table by table\<close>




section \<open>The prompt of the plan handler, said blob by blob\<close>

text \<open>
  What the plan handler's prompt is to be compared with, on rows that carry the columns
  read. The text of a cell is \<open>str\<close> of its value. A plan's line gives its name, id and
  monthly cost and, for data, voice and SMS, "Unlimited" when the flag is true and the
  amount with its unit otherwise; the catalogue is one line per plan, or "(No plans)". The
  customer profile gives the customer's id and name and the current plan's name, id and
  monthly cost when a current plan is known, and is the fixed text "No customer profile
  available." when none is. The usage blob gives the billing period and the four usage
  figures of the usage row, and is the fixed text "No usage data available." without one.
\<close>

definition plan_columns :: "string list" where
  "plan_columns =
     [''plan_id'', ''name'', ''monthly_cost'', ''unlimited_data'', ''data_limit_gb'',
      ''unlimited_voice'', ''voice_minutes'', ''unlimited_sms'', ''sms_count'']"

definition usage_columns :: "string list" where
  "usage_columns =
     [''billing_period_start'', ''billing_period_end'', ''data_used_gb'', ''voice_minutes_used'',
      ''sms_count_used'', ''total_bill_amount'']"

definition cell :: "'v env \<Rightarrow> 'v row \<Rightarrow> string \<Rightarrow> string" where
  "cell env r k = val_str env (the (map_of r k))"

definition expected_allowance :: "'v env \<Rightarrow> 'v row \<Rightarrow> string \<Rightarrow> string \<Rightarrow> string \<Rightarrow> string" where
  "expected_allowance env p flag amount unit_text =
     (if val_truthy env (the (map_of p flag)) then ''Unlimited'' else cell env p amount @ unit_text)"

definition expected_plan_line :: "'v env \<Rightarrow> 'v row \<Rightarrow> string" where
  "expected_plan_line env p =
     ''- '' @ cell env p ''name'' @ '' ('' @ cell env p ''plan_id'' @ ''): '' @
     [CHR 0xE2, CHR 0x82, CHR 0xB9] @ cell env p ''monthly_cost'' @ '' / month | '' @
     expected_allowance env p ''unlimited_data'' ''data_limit_gb'' ''GB'' @ '' | '' @
     expected_allowance env p ''unlimited_voice'' ''voice_minutes'' '' min'' @ '' | '' @
     expected_allowance env p ''unlimited_sms'' ''sms_count'' '' SMS''"

definition expected_catalog :: "'v env \<Rightarrow> 'v row list \<Rightarrow> string" where
  "expected_catalog env ps =
     (if ps = [] then ''(No plans)'' else join ''\<newline>'' (map (expected_plan_line env) ps))"

definition expected_profile :: "'v env \<Rightarrow> 'v row \<Rightarrow> 'v row option \<Rightarrow> string" where
  "expected_profile env c cur =
     (case cur of
        None \<Rightarrow> ''No customer profile available.\<newline>''
      | Some p \<Rightarrow>
          ''Customer ID: '' @ cell env c ''customer_id'' @ ''\<newline>'' @
          ''Name: '' @ cell env c ''name'' @ ''\<newline>'' @
          ''Current Plan: '' @ cell env p ''name'' @ '' ('' @ cell env p ''plan_id'' @ '')\<newline>'' @
          ''Monthly Cost: '' @ [CHR 0xE2, CHR 0x82, CHR 0xB9] @ cell env p ''monthly_cost'' @ ''\<newline>'')"

definition expected_usage :: "'v env \<Rightarrow> 'v row option \<Rightarrow> string" where
  "expected_usage env usg =
     (case usg of
        None \<Rightarrow> ''No usage data available.\<newline>''
      | Some u \<Rightarrow>
          ''Billing Period: '' @ cell env u ''billing_period_start'' @
            '' '' @ [CHR 0xE2, CHR 0x86, CHR 0x92] @ '' '' @ cell env u ''billing_period_end'' @ ''\<newline>'' @
          ''Last Billing Period Usage:\<newline>'' @
          ''- Data: '' @ cell env u ''data_used_gb'' @ '' GB\<newline>'' @
          ''- Voice: '' @ cell env u ''voice_minutes_used'' @ '' min\<newline>'' @
          ''- SMS: '' @ cell env u ''sms_count_used'' @ ''\<newline>'' @
          ''- Total Bill Amount: '' @ [CHR 0xE2, CHR 0x82, CHR 0xB9] @ cell env u ''total_bill_amount'' @
            ''\<newline>'')"

text \<open>The sample deployment with a customer whose plan has left the catalogue: the
  \<open>customers\<close> query returns a row whose \<open>service_plan_id\<close> is the id of no plan.\<close>

definition legacy_customer :: "string option row" where
  "legacy_customer =
     [(''customer_id'', Some ''C001''), (''name'', Some ''Asha''),
      (''email'', Some ''asha@example.com''), (''service_plan_id'', Some ''OLD_300'')]"

definition legacy_env :: "string option env" where
  "legacy_env =
     sample_env\<lparr>sqlite_execute :=
       (\<lambda>sql params. if sql = customer_sql then Inr [legacy_customer] else sample_execute sql params)\<rparr>"

section \<open>The classifier\<close>

lemma starts_with_prefix: "starts_with w q \<longleftrightarrow> prefix w q"
  by (induction w q rule: starts_with.induct) auto

lemma str_in_sublist: "str_in w q \<longleftrightarrow> sublist w q"
  by (induction q) (auto simp: sublist_Cons_right starts_with_prefix)

lemma any_in_iff: "any_in ws q \<longleftrightarrow> (\<exists>w\<in>set ws. sublist w q)"
  by (simp add: any_in_def list_ex_iff str_in_sublist)

lemma any_in_empty:
  "\<not> any_in billing_keywords []" "\<not> any_in network_keywords []"
  "\<not> any_in plan_keywords []" "\<not> any_in howto_keywords []"
  by (simp_all add: any_in_def billing_keywords_def network_keywords_def plan_keywords_def
        howto_keywords_def)

lemma classification_classify:
  "classification (classify_query env st) =
     (if any_in billing_keywords (str_lower env (query st)) then ''billing_account''
      else if any_in network_keywords (str_lower env (query st)) then ''network_troubleshooting''
      else if any_in plan_keywords (str_lower env (query st)) then ''service_recommendation''
      else if any_in howto_keywords (str_lower env (query st)) then ''knowledge_retrieval''
      else ''fallback'')"
  by (simp add: classify_query_def Let_def)

lemma classify_in_labels: "classification (classify_query env st) \<in> set intent_labels"
  by (simp add: classification_classify intent_labels_def)

lemma classify_frame:
  "classify_query env st = st\<lparr>classification := classification (classify_query env st)\<rparr>"
  by (simp add: classify_query_def Let_def)

text \<open>
  C1. \<open>classify_query\<close> lowercases the query and tests the billing, network, plan and
  how-to keywords in this order, a keyword matching when it occurs in the lowercased query
  as a contiguous run of characters (\<^const>\<open>sublist\<close>); the label is that of the first set
  with a match, and \<open>fallback\<close> when no set matches, as for a query whose lowercased text
  is empty. The result is always one of the five labels, and no other field of the state
  changes. The function has no failing path.
\<close>

theorem classify_query_priority:
  "classification (classify_query env st) =
     (if \<exists>w\<in>set billing_keywords. sublist w (str_lower env (query st)) then ''billing_account''
      else if \<exists>w\<in>set network_keywords. sublist w (str_lower env (query st))
        then ''network_troubleshooting''
      else if \<exists>w\<in>set plan_keywords. sublist w (str_lower env (query st))
        then ''service_recommendation''
      else if \<exists>w\<in>set howto_keywords. sublist w (str_lower env (query st))
        then ''knowledge_retrieval''
      else ''fallback'')
   \<and> classification (classify_query env st) \<in> set intent_labels
   \<and> (str_lower env (query st) = [] \<longrightarrow> classification (classify_query env st) = ''fallback'')
   \<and> classify_query env st = st\<lparr>classification := classification (classify_query env st)\<rparr>"
proof -
  have a: "classification (classify_query env st) =
     (if \<exists>w\<in>set billing_keywords. sublist w (str_lower env (query st)) then ''billing_account''
      else if \<exists>w\<in>set network_keywords. sublist w (str_lower env (query st))
        then ''network_troubleshooting''
      else if \<exists>w\<in>set plan_keywords. sublist w (str_lower env (query st))
        then ''service_recommendation''
      else if \<exists>w\<in>set howto_keywords. sublist w (str_lower env (query st))
        then ''knowledge_retrieval''
      else ''fallback'')"
    unfolding classification_classify any_in_iff ..
  have c: "str_lower env (query st) = [] \<longrightarrow> classification (classify_query env st) = ''fallback''"
    by (simp add: classification_classify any_in_empty)
  from a classify_in_labels c classify_frame show ?thesis by blast
qed

theorem classify_query_priority_witness:
  "str_lower sample_env (query (request [] None)) = []
   \<and> classification (classify_query sample_env (request [] None)) = ''fallback''
   \<and> classification (classify_query sample_env (request ''What is my current BILL?'' None))
       = ''billing_account''
   \<and> classification (classify_query sample_env (request ''My bill: slow internet'' None))
       = ''billing_account''
   \<and> classification (classify_query sample_env (request ''My internet is slow'' None))
       = ''network_troubleshooting''
   \<and> classification (classify_query sample_env (request ''Recommend me a cheaper plan'' None))
       = ''service_recommendation''
   \<and> classification (classify_query sample_env (request ''Where is the eSIM menu?'' None))
       = ''knowledge_retrieval''
   \<and> classification (classify_query sample_env (request ''Thanks'' None)) = ''fallback''"
proof -
  have e: "str_lower sample_env (query (request [] None)) = []"
    by (simp add: sample_env_def request_def ascii_lower_def)
  have f: "classification (classify_query sample_env (request [] None)) = ''fallback''"
    using classify_query_priority [of sample_env "request [] None"] e by blast
  have rest:
    "classification (classify_query sample_env (request ''What is my current BILL?'' None))
       = ''billing_account''"
    "classification (classify_query sample_env (request ''My bill: slow internet'' None))
       = ''billing_account''"
    "classification (classify_query sample_env (request ''My internet is slow'' None))
       = ''network_troubleshooting''"
    "classification (classify_query sample_env (request ''Recommend me a cheaper plan'' None))
       = ''service_recommendation''"
    "classification (classify_query sample_env (request ''Where is the eSIM menu?'' None))
       = ''knowledge_retrieval''"
    "classification (classify_query sample_env (request ''Thanks'' None)) = ''fallback''"
    by (simp_all add: classification_classify sample_env_def request_def ascii_lower_def any_in_def
        billing_keywords_def network_keywords_def plan_keywords_def howto_keywords_def)
  from e f rest show ?thesis by blast
qed

section \<open>The router\<close>

lemma route_query_cases:
  "route_query st =
     (if classification st = ''billing_account'' then ''crew_ai_node''
      else if classification st = ''network_troubleshooting'' then ''autogen_node''
      else if classification st = ''service_recommendation'' then ''langchain_node''
      else if classification st = ''knowledge_retrieval'' then ''llamaindex_node''
      else ''fallback_handler'')"
  by (simp add: route_query_def Let_def)

text \<open>
  C4. \<open>route_query\<close> is a function of the classification label alone, with no failing
  path; its value is always one of the five node names of the graph, and on the five
  labels the classifier produces it is the table label by label onto the five node names,
  which are pairwise distinct: different labels go to different handlers.
\<close>

theorem route_query_total_distinct:
  "route_query st \<in> set handler_nodes
   \<and> map (\<lambda>l. route_query (st\<lparr>classification := l\<rparr>)) intent_labels = handler_nodes
   \<and> distinct handler_nodes
   \<and> inj_on (\<lambda>l. route_query (st\<lparr>classification := l\<rparr>)) (set intent_labels)
   \<and> (classification st' = classification st \<longrightarrow> route_query st' = route_query st)"
proof -
  have a: "route_query st \<in> set handler_nodes"
    by (simp add: route_query_cases handler_nodes_def)
  have b: "map (\<lambda>l. route_query (st\<lparr>classification := l\<rparr>)) intent_labels = handler_nodes"
    by (simp add: route_query_cases handler_nodes_def intent_labels_def)
  have c: "distinct handler_nodes"
    by (simp add: handler_nodes_def)
  have l: "distinct intent_labels" by (simp add: intent_labels_def)
  have d: "inj_on (\<lambda>l. route_query (st\<lparr>classification := l\<rparr>)) (set intent_labels)"
    using b c l by (metis distinct_map)
  have e: "classification st' = classification st \<longrightarrow> route_query st' = route_query st"
    by (simp add: route_query_cases)
  from a b c d e show ?thesis by blast
qed

theorem route_query_total_distinct_witness:
  "classification (request ''x'' None) = classification (request ''y'' (Some ''a@b''))
   \<and> route_query (request ''x'' None) = route_query (request ''y'' (Some ''a@b''))
   \<and> route_query (request ''x'' None) = ''fallback_handler''
   \<and> route_query (classify_query sample_env (request ''My internet is slow'' None)) = ''autogen_node''"
proof -
  have h: "classification (request ''x'' None) = classification (request ''y'' (Some ''a@b''))"
    by (simp add: request_def)
  have r: "route_query (request ''x'' None) = route_query (request ''y'' (Some ''a@b''))"
    using route_query_total_distinct [of "request ''y'' (Some ''a@b'')" "request ''x'' None"] h by blast
  have v: "route_query (request ''x'' None) = ''fallback_handler''"
    by (simp add: route_query_cases request_def)
  have n: "route_query (classify_query sample_env (request ''My internet is slow'' None)) = ''autogen_node''"
    by (simp add: route_query_cases classify_query_def Let_def sample_env_def request_def ascii_lower_def any_in_def
        billing_keywords_def network_keywords_def)
  from h r v n show ?thesis by blast
qed

section \<open>The aggregator\<close>



section \<open>The backend nodes\<close>

lemma crew_ai_node_returns:
  "\<exists>a w1. crew_ai_node env w st = (Inr (st\<lparr>intermediate_responses := [(''crew_ai'', a)]\<rparr>), w1)"
  by (auto simp: crew_ai_node_def Let_def split: prod.splits sum.splits)

lemma process_network_query_returns: "\<exists>a w1. process_network_query env w q c = (Inr a, w1)"
  by (auto simp: process_network_query_def split: prod.splits sum.splits)

lemma autogen_node_returns:
  "\<exists>a w1. autogen_node env w st = (Inr (st\<lparr>intermediate_responses := [(''autogen'', a)]\<rparr>), w1)"
  by (auto simp: autogen_node_def Let_def split: prod.splits sum.splits)

lemma langchain_node_returns:
  "\<exists>a w1. langchain_node env w st = (Inr (st\<lparr>intermediate_responses := [(''langchain'', a)]\<rparr>), w1)"
  by (auto simp: langchain_node_def Let_def split: prod.splits sum.splits)

lemma llamaindex_node_result:
  "llamaindex_node env w st = (Inr st1, w1) \<Longrightarrow>
     \<exists>a. st1 = st\<lparr>intermediate_responses := [(''llamaindex'', a)]\<rparr>"
  by (auto simp: llamaindex_node_def Let_def split: prod.splits sum.splits)

lemma run_node_result:
  assumes "run_node env w name st = (Inr st1, w1)"
  shows "\<exists>k a. st1 = st\<lparr>intermediate_responses := [(k, a)]\<rparr>"
proof -
  consider "name = ''crew_ai_node''" | "name = ''autogen_node''" | "name = ''langchain_node''"
    | "name = ''llamaindex_node''" | "name = ''fallback_handler''"
    | "name \<notin> set handler_nodes"
    by (auto simp: handler_nodes_def)
  then show ?thesis
  proof cases
    case 1
    with assms have "crew_ai_node env w st = (Inr st1, w1)" by (simp add: run_node_def)
    with crew_ai_node_returns [of env w st] show ?thesis by auto
  next
    case 2
    with assms have "autogen_node env w st = (Inr st1, w1)" by (simp add: run_node_def)
    with autogen_node_returns [of env w st] show ?thesis by auto
  next
    case 3
    with assms have "langchain_node env w st = (Inr st1, w1)" by (simp add: run_node_def)
    with langchain_node_returns [of env w st] show ?thesis by auto
  next
    case 4
    with assms have "llamaindex_node env w st = (Inr st1, w1)" by (simp add: run_node_def)
    from llamaindex_node_result [OF this] show ?thesis by blast
  next
    case 5
    with assms have "fallback_handler env w st = (Inr st1, w1)" by (simp add: run_node_def)
    then show ?thesis by (auto simp: fallback_handler_def)
  next
    case 6
    with assms show ?thesis by (simp add: run_node_def handler_nodes_def)
  qed
qed

lemma formulate_response_keeps:
  "intermediate_responses (formulate_response st) = intermediate_responses st"
  by (simp add: formulate_response_def Let_def)

text \<open>
  C3. Once the node chosen by the router has run and returned, the mapping
  \<open>intermediate_responses\<close> of the state holds at most one key: it is exactly the one item the
  node wrote, whatever the mapping held before. The same holds of the state the whole graph
  returns.
\<close>

theorem single_intermediate_response:
  "(route_and_handle env w st = (Inr st1, w1) \<longrightarrow>
      length (intermediate_responses st1) \<le> 1 \<and> (\<exists>k a. intermediate_responses st1 = [(k, a)]))
   \<and> (graph_invoke env w st = (Inr st2, w2) \<longrightarrow> length (intermediate_responses st2) \<le> 1)"
proof -
  have a: "length (intermediate_responses st1) \<le> 1 \<and> (\<exists>k a. intermediate_responses st1 = [(k, a)])"
    if "route_and_handle env w st = (Inr st1, w1)"
  proof -
    from that obtain k a where "st1 = st\<lparr>intermediate_responses := [(k, a)]\<rparr>"
      unfolding route_and_handle_def using run_node_result by blast
    then show ?thesis by simp
  qed
  have b: "length (intermediate_responses st2) \<le> 1" if g: "graph_invoke env w st = (Inr st2, w2)"
  proof -
    from g obtain s where r: "route_and_handle env w (classify_query env st) = (Inr s, w2)"
      and s: "st2 = formulate_response s"
      by (auto simp: graph_invoke_def split: prod.splits sum.splits)
    from r obtain k a where "s = (classify_query env st)\<lparr>intermediate_responses := [(k, a)]\<rparr>"
      unfolding route_and_handle_def using run_node_result by blast
    with s show ?thesis by (simp add: formulate_response_keeps)
  qed
  from a b show ?thesis by blast
qed

lemma sample_network_class:
  "classification (classify_query sample_env (request ''My internet is slow'' None)) = ''network_troubleshooting''"
  by (simp add: classify_query_def Let_def sample_env_def request_def ascii_lower_def any_in_def
        billing_keywords_def network_keywords_def)

lemma sample_network_answer:
  "fst (process_network_query sample_env fresh_world ''My internet is slow'' None)
     = Inr (network_response ''Cell congestion.'' ''Please restart your phone.'')"
  by (simp add: process_network_query_def diagnostics_agent_def resolution_agent_def build_client_def
        chat_completion_def sample_env_def truthy_str_def)

theorem single_intermediate_response_witness:
  "fst (route_and_handle sample_env fresh_world
          (classify_query sample_env (request ''My internet is slow'' None)))
     = Inr ((classify_query sample_env (request ''My internet is slow'' None))
              \<lparr>intermediate_responses :=
                 [(''autogen'', network_response ''Cell congestion.'' ''Please restart your phone.'')]\<rparr>)
   \<and> length (intermediate_responses
        ((classify_query sample_env (request ''My internet is slow'' None))
              \<lparr>intermediate_responses :=
                 [(''autogen'', network_response ''Cell congestion.'' ''Please restart your phone.'')]\<rparr>)) \<le> 1"
proof -
  let ?s0 = "classify_query sample_env (request ''My internet is slow'' None)"
  let ?s1 = "?s0\<lparr>intermediate_responses :=
                 [(''autogen'', network_response ''Cell congestion.'' ''Please restart your phone.'')]\<rparr>"
  have q: "query ?s0 = ''My internet is slow''" "customer_info ?s0 = [(''email'', None)]"
    by (simp_all add: classify_query_def Let_def request_def)
  have r: "route_query ?s0 = ''autogen_node''"
    by (simp add: route_query_def Let_def sample_network_class)
  obtain wn where "process_network_query sample_env fresh_world ''My internet is slow'' None
          = (Inr (network_response ''Cell congestion.'' ''Please restart your phone.''), wn)"
    using sample_network_answer by (metis prod.collapse)
  then have "fst (autogen_node sample_env fresh_world ?s0) = Inr ?s1"
    by (simp add: autogen_node_def Let_def q info_get_def py_or_def truthy_str_def)
  then have e: "fst (route_and_handle sample_env fresh_world ?s0) = Inr ?s1"
    by (simp add: route_and_handle_def run_node_def r)
  then have "route_and_handle sample_env fresh_world ?s0
               = (Inr ?s1, snd (route_and_handle sample_env fresh_world ?s0))"
    by (metis prod.collapse)
  with single_intermediate_response [of sample_env fresh_world ?s0 ?s1]
  have "length (intermediate_responses ?s1) \<le> 1" by blast
  with e show ?thesis by blast
qed

section \<open>The fallback path\<close>

lemma fallback_run:
  assumes "classification (classify_query env st) = ''fallback''"
  shows "graph_invoke env w st =
           (Inr ((classify_query env st)\<lparr>intermediate_responses := [(''fallback'', fallback_text)],
                   final_response := fallback_text\<rparr>), w)"
proof -
  have "route_query (classify_query env st) = ''fallback_handler''"
    using assms by (simp add: route_query_def Let_def)
  then show ?thesis
    by (simp add: graph_invoke_def route_and_handle_def run_node_def fallback_handler_def
        formulate_response_def Let_def)
qed

text \<open>
  C10. A request that the classifier labels \<open>fallback\<close> ends with the fixed help text as its
  final response, without any call to the store or to a model (the world is returned as it
  was). So two such requests, whatever their queries, customer identities, chat histories
  and deployments, get the same final response.
\<close>

theorem fallback_response_fixed:
  assumes "classification (classify_query env1 st1) = ''fallback''"
    and "classification (classify_query env2 st2) = ''fallback''"
  shows "\<exists>r1 r2. graph_invoke env1 w1 st1 = (Inr r1, w1) \<and> graph_invoke env2 w2 st2 = (Inr r2, w2)
           \<and> final_response r1 = fallback_text \<and> final_response r2 = final_response r1"
  using fallback_run [OF assms(1), of w1] fallback_run [OF assms(2), of w2] by simp

theorem fallback_response_fixed_witness:
  "classification (classify_query sample_env (request ''Thanks'' None)) = ''fallback''
   \<and> classification (classify_query unknown_model_env
         ((request ''Good morning!'' (Some ''asha@example.com''))
            \<lparr>chat_history := [\<lparr>role = ''user'', content = ''hello''\<rparr>]\<rparr>)) = ''fallback''
   \<and> (\<exists>r1 r2.
         graph_invoke sample_env fresh_world (request ''Thanks'' None) = (Inr r1, fresh_world)
       \<and> graph_invoke unknown_model_env (fresh_world\<lparr>index_loaded := True\<rparr>)
           ((request ''Good morning!'' (Some ''asha@example.com''))
              \<lparr>chat_history := [\<lparr>role = ''user'', content = ''hello''\<rparr>]\<rparr>)
           = (Inr r2, fresh_world\<lparr>index_loaded := True\<rparr>)
       \<and> final_response r1 = fallback_text \<and> final_response r2 = final_response r1)"
proof -
  have a: "classification (classify_query sample_env (request ''Thanks'' None)) = ''fallback''"
    by (simp add: classify_query_def Let_def sample_env_def request_def ascii_lower_def any_in_def
        billing_keywords_def network_keywords_def plan_keywords_def howto_keywords_def)
  have b: "classification (classify_query unknown_model_env
         ((request ''Good morning!'' (Some ''asha@example.com''))
            \<lparr>chat_history := [\<lparr>role = ''user'', content = ''hello''\<rparr>]\<rparr>)) = ''fallback''"
    by (simp add: classify_query_def Let_def unknown_model_env_def sample_env_def request_def
        ascii_lower_def any_in_def
        billing_keywords_def network_keywords_def plan_keywords_def howto_keywords_def)
  from a b fallback_response_fixed [OF a b, of fresh_world "fresh_world\<lparr>index_loaded := True\<rparr>"]
  show ?thesis by blast
qed

section \<open>The network handler\<close>

text \<open>
  C8. When the API key is set and both model calls return, \<open>process_network_query\<close> makes
  exactly two model calls and nothing else: first the diagnostic pass on the query, then
  the rewrite pass, whose user message embeds the text the diagnostic pass returned. Its
  result is the heading "### Network Diagnostics (Internal)", the diagnostic text, the
  heading "### Final Explanation" and the rewritten text, in this order.
\<close>

theorem process_network_query_two_chained_calls:
  assumes "truthy_str (openai_api_key env)"
    and "chat_create env (calls w) (openai_model env) diagnostics_system_prompt
           (diagnostics_message q cid) ''0.2'' = Inr diagnostics"
    and "chat_create env
           (calls w @ [ChatCompletion (openai_model env) diagnostics_system_prompt
                         (diagnostics_message q cid) ''0.2''])
           (openai_model env) resolution_system_prompt
           (''Here is the technical diagnostics summary from the engineering system:\<newline>\<newline>'' @
            diagnostics @
            ''\<newline>\<newline>Convert this into a helpful customer-facing explanation with steps.'')
           ''0.4'' = Inr resolution"
  shows "process_network_query env w q cid =
           (Inr (''### Network Diagnostics (Internal)\<newline>'' @ diagnostics @
                 ''\<newline>\<newline>### Final Explanation\<newline>'' @ resolution),
            w\<lparr>calls := calls w @
               [ChatCompletion (openai_model env) diagnostics_system_prompt
                  (diagnostics_message q cid) ''0.2'',
                ChatCompletion (openai_model env) resolution_system_prompt
                  (''Here is the technical diagnostics summary from the engineering system:\<newline>\<newline>'' @
                   diagnostics @
                   ''\<newline>\<newline>Convert this into a helpful customer-facing explanation with steps.'')
                  ''0.4'']\<rparr>)"
proof -
  have m: "resolution_message diagnostics =
      ''Here is the technical diagnostics summary from the engineering system:\<newline>\<newline>'' @
            diagnostics @
            ''\<newline>\<newline>Convert this into a helpful customer-facing explanation with steps.''"
    by (simp add: resolution_message_def)
  let ?c1 = "ChatCompletion (openai_model env) diagnostics_system_prompt
               (diagnostics_message q cid) ''0.2''"
  let ?c2 = "ChatCompletion (openai_model env) resolution_system_prompt
               (resolution_message diagnostics) ''0.4''"
  have d: "diagnostics_agent env w q cid = (Inr diagnostics, w\<lparr>calls := calls w @ [?c1]\<rparr>)"
    using assms(1,2)
    by (simp add: diagnostics_agent_def build_client_def chat_completion_def record_call_def)
  have r: "resolution_agent env (w\<lparr>calls := calls w @ [?c1]\<rparr>) diagnostics =
      (Inr resolution, w\<lparr>calls := calls w @ [?c1, ?c2]\<rparr>)"
    using assms(1,3) unfolding m [symmetric]
    by (simp add: resolution_agent_def build_client_def chat_completion_def record_call_def)
  have n: "network_response diagnostics resolution =
      ''### Network Diagnostics (Internal)\<newline>'' @ diagnostics @
                 ''\<newline>\<newline>### Final Explanation\<newline>'' @ resolution"
    by (simp add: network_response_def)
  show ?thesis
    unfolding m [symmetric] n [symmetric]
    by (simp add: process_network_query_def d r)
qed

theorem process_network_query_two_chained_calls_witness:
  "truthy_str (openai_api_key sample_env)
   \<and> process_network_query sample_env fresh_world ''My internet is slow'' None =
       (Inr (''### Network Diagnostics (Internal)\<newline>'' @ ''Cell congestion.'' @
             ''\<newline>\<newline>### Final Explanation\<newline>'' @ ''Please restart your phone.''),
        fresh_world\<lparr>calls := calls fresh_world @
           [ChatCompletion (openai_model sample_env) diagnostics_system_prompt
              (diagnostics_message ''My internet is slow'' None) ''0.2'',
            ChatCompletion (openai_model sample_env) resolution_system_prompt
              (''Here is the technical diagnostics summary from the engineering system:\<newline>\<newline>'' @
               ''Cell congestion.'' @
               ''\<newline>\<newline>Convert this into a helpful customer-facing explanation with steps.'')
              ''0.4'']\<rparr>)"
proof -
  have k: "truthy_str (openai_api_key sample_env)"
    by (simp add: sample_env_def truthy_str_def)
  have d: "chat_create sample_env (calls fresh_world) (openai_model sample_env) diagnostics_system_prompt
           (diagnostics_message ''My internet is slow'' None) ''0.2'' = Inr ''Cell congestion.''"
    by (simp add: sample_env_def)
  have r: "chat_create sample_env
           (calls fresh_world @ [ChatCompletion (openai_model sample_env) diagnostics_system_prompt
                         (diagnostics_message ''My internet is slow'' None) ''0.2''])
           (openai_model sample_env) resolution_system_prompt
           (''Here is the technical diagnostics summary from the engineering system:\<newline>\<newline>'' @
            ''Cell congestion.'' @
            ''\<newline>\<newline>Convert this into a helpful customer-facing explanation with steps.'')
           ''0.4'' = Inr ''Please restart your phone.''"
    by (simp add: sample_env_def)
  from k process_network_query_two_chained_calls [OF k d r] show ?thesis by blast
qed

section \<open>The plan-recommendation handler\<close>

lemmas sql_defs = tables_sql_def plans_sql_def customer_sql_def usage_sql_def filter_sql_def sample_sql_def

lemma getitem_present: "k \<in> set (map fst r) \<Longrightarrow> getitem r k = Inr (the (map_of r k))"
  by (cases "map_of r k") (auto simp: getitem_def map_of_eq_None_iff)

lemma traverse_map: "(\<And>x. x \<in> set xs \<Longrightarrow> f x = Inr (g x)) \<Longrightarrow> traverse f xs = Inr (map g xs)"
  by (induction xs) simp_all

lemma allowance_expected:
  assumes "flag \<in> set (map fst p)" and "amount \<in> set (map fst p)"
  shows "allowance env p flag amount unit_text = Inr (expected_allowance env p flag amount unit_text)"
  using assms
  by (simp add: allowance_def expected_allowance_def bind_exn_def getitem_present cell_def)

lemma format_plan_expected:
  assumes "set plan_columns \<subseteq> set (map fst p)"
  shows "format_plan env p = Inr (expected_plan_line env p)"
proof -
  from assms have k:
    "''plan_id'' \<in> set (map fst p)" "''name'' \<in> set (map fst p)" "''monthly_cost'' \<in> set (map fst p)"
    "''unlimited_data'' \<in> set (map fst p)" "''data_limit_gb'' \<in> set (map fst p)"
    "''unlimited_voice'' \<in> set (map fst p)" "''voice_minutes'' \<in> set (map fst p)"
    "''unlimited_sms'' \<in> set (map fst p)" "''sms_count'' \<in> set (map fst p)"
    unfolding plan_columns_def by simp_all
  show ?thesis
    unfolding format_plan_def expected_plan_line_def
    by (simp add: allowance_expected [OF k(4) k(5)] allowance_expected [OF k(6) k(7)]
        allowance_expected [OF k(8) k(9)] getitem_present [OF k(1)] getitem_present [OF k(2)]
        getitem_present [OF k(3)] bind_exn_def cell_def rupee_def)
qed

lemma plan_text_expected:
  assumes "\<forall>p\<in>set ps. set plan_columns \<subseteq> set (map fst p)"
  shows "plan_text env ps = Inr (expected_catalog env ps)"
proof -
  have "traverse (format_plan env) ps = Inr (map (expected_plan_line env) ps)"
    using assms by (intro traverse_map format_plan_expected) blast
  then show ?thesis by (simp add: plan_text_def expected_catalog_def bind_exn_def)
qed

lemma customer_text_expected:
  assumes "''customer_id'' \<in> set (map fst c)" and "''name'' \<in> set (map fst c)"
    and "\<forall>p. cur = Some p \<longrightarrow> set plan_columns \<subseteq> set (map fst p)"
  shows "customer_text env (Some c) cur = Inr (expected_profile env c cur)"
proof (cases cur)
  case None
  then show ?thesis by (simp add: customer_text_def expected_profile_def)
next
  case (Some p)
  with assms(3) have "set plan_columns \<subseteq> set (map fst p)" by blast
  then have k: "''plan_id'' \<in> set (map fst p)" "''name'' \<in> set (map fst p)"
    "''monthly_cost'' \<in> set (map fst p)"
    unfolding plan_columns_def by simp_all
  from k(1) have pn: "p \<noteq> []" by auto
  from assms(1) have cn: "c \<noteq> []" by auto
  show ?thesis
    using Some pn cn
    by (simp add: customer_text_def expected_profile_def bind_exn_def cell_def rupee_def
        getitem_present [OF k(1)] getitem_present [OF k(2)] getitem_present [OF k(3)]
        getitem_present [OF assms(1)] getitem_present [OF assms(2)])
qed

lemma usage_text_expected:
  assumes "\<forall>u. usg = Some u \<longrightarrow> set usage_columns \<subseteq> set (map fst u)"
  shows "usage_text env usg = Inr (expected_usage env usg)"
proof (cases usg)
  case None
  then show ?thesis by (simp add: usage_text_def expected_usage_def)
next
  case (Some u)
  with assms have "set usage_columns \<subseteq> set (map fst u)" by blast
  then have k: "''billing_period_start'' \<in> set (map fst u)" "''billing_period_end'' \<in> set (map fst u)"
    "''data_used_gb'' \<in> set (map fst u)" "''voice_minutes_used'' \<in> set (map fst u)"
    "''sms_count_used'' \<in> set (map fst u)" "''total_bill_amount'' \<in> set (map fst u)"
    unfolding usage_columns_def by simp_all
  from k(1) have un: "u \<noteq> []" by auto
  show ?thesis
    using Some un
    by (simp add: usage_text_def expected_usage_def bind_exn_def cell_def rupee_def
        getitem_present [OF k(1)] getitem_present [OF k(2)] getitem_present [OF k(3)]
        getitem_present [OF k(4)] getitem_present [OF k(5)] getitem_present [OF k(6)])
qed

lemma find_plan_first:
  assumes "\<forall>p\<in>set ps. set plan_columns \<subseteq> set (map fst p)"
  shows "find_plan env fk ps = Inr (find (\<lambda>p. val_eq env (the (map_of p ''plan_id'')) fk) ps)"
  using assms
proof (induction ps)
  case Nil
  show ?case by simp
next
  case (Cons p ps)
  then have "''plan_id'' \<in> set (map fst p)" by (simp add: plan_columns_def)
  from getitem_present [OF this] Cons show ?case by simp
qed

lemma load_current_plan_first:
  assumes "\<forall>p\<in>set ps. set plan_columns \<subseteq> set (map fst p)"
  shows "load_current_plan env c (Some ps) =
     Inr (case map_of c ''service_plan_id'' of
            None \<Rightarrow> None
          | Some fk \<Rightarrow>
              if val_truthy env fk
              then find (\<lambda>p. val_eq env (the (map_of p ''plan_id'')) fk) ps
              else None)"
proof (cases "map_of c ''service_plan_id''")
  case None
  then show ?thesis by (simp add: load_current_plan_def)
next
  case (Some fk)
  show ?thesis
  proof (cases "ps = []")
    case True
    with Some show ?thesis by (simp add: load_current_plan_def)
  next
    case False
    with Some find_plan_first [OF assms, of env fk] show ?thesis
      by (simp add: load_current_plan_def)
  qed
qed

lemma plan_handler_run:
  assumes "em \<noteq> []"
    and "sqlite_execute env
           (''SELECT name FROM sqlite_master WHERE type='' @ [CHR 0x27] @ ''table'' @ [CHR 0x27] @
            '' ORDER BY name'') [] = Inr trows"
    and "traverse (\<lambda>r. getitem r ''name'') trows = Inr tables"
    and "py_in env ''service_plans'' tables"
    and "py_in env ''customer_usage'' tables"
    and "sqlite_execute env ''SELECT * FROM service_plans'' [] = Inr ps"
    and "\<forall>p\<in>set ps. set plan_columns \<subseteq> set (map fst p)"
    and "sqlite_execute env ''SELECT * FROM customers WHERE email = :email LIMIT 1''
           [(''email'', val_of_str env em)] = Inr (c # others)"
    and "''customer_id'' \<in> set (map fst c)"
    and "''name'' \<in> set (map fst c)"
    and "sqlite_execute env
           (''\<newline>            SELECT * FROM customer_usage\<newline>'' @
            ''            WHERE customer_id = :cid\<newline>'' @
            ''            ORDER BY billing_period_end DESC\<newline>'' @
            ''            LIMIT 1\<newline>            '')
           [(''cid'', the (map_of c ''customer_id''))] = Inr urows"
    and "\<forall>u\<in>set (take 1 urows). set usage_columns \<subseteq> set (map fst u)"
    and "cur = (case map_of c ''service_plan_id'' of
                  None \<Rightarrow> None
                | Some fk \<Rightarrow>
                    if val_truthy env fk
                    then find (\<lambda>p. val_eq env (the (map_of p ''plan_id'')) fk) ps
                    else None)"
    and "usg = (case urows of [] \<Rightarrow> None | u # older \<Rightarrow> Some u)"
    and "truthy_str (openai_api_key env)"
    and "queries =
           [RunQuery (''SELECT name FROM sqlite_master WHERE type='' @ [CHR 0x27] @ ''table'' @
                      [CHR 0x27] @ '' ORDER BY name'') [],
            RunQuery ''SELECT * FROM service_plans'' [],
            RunQuery ''SELECT * FROM customers WHERE email = :email LIMIT 1''
              [(''email'', val_of_str env em)],
            RunQuery (''\<newline>            SELECT * FROM customer_usage\<newline>'' @
                      ''            WHERE customer_id = :cid\<newline>'' @
                      ''            ORDER BY billing_period_end DESC\<newline>'' @
                      ''            LIMIT 1\<newline>            '')
              [(''cid'', the (map_of c ''customer_id''))]]"
    and "user_message =
           ''\<newline>User Query:\<newline>'' @ q @
           ''\<newline> \<newline>Customer:\<newline>'' @ expected_profile env c cur @
           ''\<newline> \<newline>Usage:\<newline>'' @ expected_usage env usg @
           ''\<newline> \<newline>Available Plans:\<newline>'' @ expected_catalog env ps @
           ''\<newline> \<newline>Provide the best personalized plan/add-on recommendations.\<newline>'' @
           ''                ''"
  shows "load_customer_profile env w (Some em) =
           (Inr \<lparr>customer = Some c, current_plan = cur, usage = usg, plans = Some ps\<rparr>,
            w\<lparr>calls := calls w @ queries\<rparr>)
       \<and> recommend_personalized_plan env w (Some em) q =
           (llm_invoke env (calls w @ queries) (openai_model env) plan_system_message user_message,
            w\<lparr>calls := calls w @ queries @
               [LlmInvoke (openai_model env) plan_system_message user_message]\<rparr>)"
proof -
  have s1: "tables_sql = ''SELECT name FROM sqlite_master WHERE type='' @ [CHR 0x27] @ ''table'' @
              [CHR 0x27] @ '' ORDER BY name''"
    by (simp add: tables_sql_def)
  have s2: "plans_sql = ''SELECT * FROM service_plans''" by (simp add: plans_sql_def)
  have s3: "customer_sql = ''SELECT * FROM customers WHERE email = :email LIMIT 1''"
    by (simp add: customer_sql_def)
  have s4: "usage_sql = ''\<newline>            SELECT * FROM customer_usage\<newline>'' @
                      ''            WHERE customer_id = :cid\<newline>'' @
                      ''            ORDER BY billing_period_end DESC\<newline>'' @
                      ''            LIMIT 1\<newline>            ''"
    by (simp add: usage_sql_def)
  let ?cid = "the (map_of c ''customer_id'')"
  let ?q1 = "RunQuery tables_sql []"
  let ?q2 = "RunQuery plans_sql []"
  let ?q3 = "RunQuery customer_sql [(''email'', val_of_str env em)]"
  let ?q4 = "RunQuery usage_sql [(''cid'', ?cid)]"
  have qs: "queries = [?q1, ?q2, ?q3, ?q4]"
    unfolding assms(16) s1 s2 s3 s4 ..
  let ?w1 = "w\<lparr>calls := calls w @ [?q1]\<rparr>"
  let ?w2 = "w\<lparr>calls := calls w @ [?q1, ?q2]\<rparr>"
  let ?w3 = "w\<lparr>calls := calls w @ [?q1, ?q2, ?q3]\<rparr>"
  let ?w4 = "w\<lparr>calls := calls w @ [?q1, ?q2, ?q3, ?q4]\<rparr>"
  have t: "get_tables env w = (Inr tables, ?w1)"
    using assms(2,3) unfolding s1 [symmetric]
    by (simp add: get_tables_def run_query_def record_call_def)
  have p: "load_plans env ?w1 tables = (Inr (Some ps), ?w2)"
    using assms(4,6) unfolding s2 [symmetric]
    by (simp add: load_plans_def run_query_def record_call_def)
  have cq: "run_query env ?w2 customer_sql [(''email'', val_of_str env em)] = (Inr (c # others), ?w3)"
    using assms(8) unfolding s3 [symmetric] by (simp add: run_query_def record_call_def)
  have cp: "load_current_plan env c (Some ps) = Inr cur"
    using load_current_plan_first [OF assms(7), of env c] assms(13) by simp
  have ue: "sqlite_execute env usage_sql [(''cid'', ?cid)] = Inr urows"
    using assms(11) unfolding s4 [symmetric] .
  have u: "load_usage env ?w3 tables c = (Inr usg, ?w4)"
    using assms(5,14) ue getitem_present [OF assms(9)]
    by (cases urows) (simp_all add: load_usage_def run_query_def record_call_def)
  have prof: "load_customer_profile env w (Some em) =
           (Inr \<lparr>customer = Some c, current_plan = cur, usage = usg, plans = Some ps\<rparr>, ?w4)"
    using assms(1) by (simp add: load_customer_profile_def t p cq cp u truthy_str_def)
  have pt: "plan_text env ps = Inr (expected_catalog env ps)"
    by (rule plan_text_expected [OF assms(7)])
  have "\<forall>p. cur = Some p \<longrightarrow> p \<in> set ps"
    unfolding assms(13) by (auto simp: find_Some_iff split: option.splits if_splits)
  with assms(7) have "\<forall>p. cur = Some p \<longrightarrow> set plan_columns \<subseteq> set (map fst p)" by blast
  from customer_text_expected [OF assms(9) assms(10) this]
  have ct: "customer_text env (Some c) cur = Inr (expected_profile env c cur)" .
  have "\<forall>u. usg = Some u \<longrightarrow> set usage_columns \<subseteq> set (map fst u)"
    using assms(12) unfolding assms(14) by (cases urows) simp_all
  from usage_text_expected [OF this]
  have ut: "usage_text env usg = Inr (expected_usage env usg)" .
  have um: "plan_user_message q (expected_profile env c cur) (expected_usage env usg)
              (expected_catalog env ps) = user_message"
    unfolding assms(17) by (simp add: plan_user_message_def)
  have "recommend_personalized_plan env w (Some em) q =
           (llm_invoke env (calls w @ [?q1, ?q2, ?q3, ?q4]) (openai_model env) plan_system_message
              user_message,
            w\<lparr>calls := calls w @ [?q1, ?q2, ?q3, ?q4] @
               [LlmInvoke (openai_model env) plan_system_message user_message]\<rparr>)"
    using assms(15)
    by (simp add: recommend_personalized_plan_def prof pt ct ut um service_build_llm_def
        record_call_def Let_def)
  with prof show ?thesis unfolding qs by blast
qed

text \<open>
  C7 (amended). For a customer e-mail found in the store (the \<open>customers\<close> query returns a
  row \<open>c\<close>), in a store that has the tables \<open>service_plans\<close> and \<open>customer_usage\<close> and whose
  rows carry the columns read, the handler makes four queries in order: the table names,
  all plans, the customer by e-mail with \<open>LIMIT 1\<close>, and the usage rows of the customer's
  \<open>customer_id\<close> with \<open>ORDER BY billing_period_end DESC LIMIT 1\<close>. The profile it loads holds
  the customer row; as current plan the first entry of the full plan list whose \<open>plan_id\<close>
  equals the customer's \<open>service_plan_id\<close>, and none when that key is missing or falsy or
  no entry matches; as usage the first row of the usage query, and none when it returns no
  row; and the full plan list. It then makes exactly one model call, whose user message
  holds, in this order, the query, the customer profile, the usage blob and the plan
  catalogue, and returns what that call returns. The customer profile carries the
  customer's id and name and the current plan only when a current plan was resolved;
  otherwise it is the fixed text "No customer profile available.".
\<close>

theorem plan_handler_supplies_blobs:
  assumes "em \<noteq> []"
    and "sqlite_execute env
           (''SELECT name FROM sqlite_master WHERE type='' @ [CHR 0x27] @ ''table'' @ [CHR 0x27] @
            '' ORDER BY name'') [] = Inr trows"
    and "traverse (\<lambda>r. getitem r ''name'') trows = Inr tables"
    and "py_in env ''service_plans'' tables"
    and "py_in env ''customer_usage'' tables"
    and "sqlite_execute env ''SELECT * FROM service_plans'' [] = Inr ps"
    and "\<forall>p\<in>set ps. set plan_columns \<subseteq> set (map fst p)"
    and "sqlite_execute env ''SELECT * FROM customers WHERE email = :email LIMIT 1''
           [(''email'', val_of_str env em)] = Inr (c # others)"
    and "''customer_id'' \<in> set (map fst c)"
    and "''name'' \<in> set (map fst c)"
    and "sqlite_execute env
           (''\<newline>            SELECT * FROM customer_usage\<newline>'' @
            ''            WHERE customer_id = :cid\<newline>'' @
            ''            ORDER BY billing_period_end DESC\<newline>'' @
            ''            LIMIT 1\<newline>            '')
           [(''cid'', the (map_of c ''customer_id''))] = Inr urows"
    and "\<forall>u\<in>set (take 1 urows). set usage_columns \<subseteq> set (map fst u)"
    and "cur = (case map_of c ''service_plan_id'' of
                  None \<Rightarrow> None
                | Some fk \<Rightarrow>
                    if val_truthy env fk
                    then find (\<lambda>p. val_eq env (the (map_of p ''plan_id'')) fk) ps
                    else None)"
    and "usg = (case urows of [] \<Rightarrow> None | u # older \<Rightarrow> Some u)"
    and "truthy_str (openai_api_key env)"
    and "queries =
           [RunQuery (''SELECT name FROM sqlite_master WHERE type='' @ [CHR 0x27] @ ''table'' @
                      [CHR 0x27] @ '' ORDER BY name'') [],
            RunQuery ''SELECT * FROM service_plans'' [],
            RunQuery ''SELECT * FROM customers WHERE email = :email LIMIT 1''
              [(''email'', val_of_str env em)],
            RunQuery (''\<newline>            SELECT * FROM customer_usage\<newline>'' @
                      ''            WHERE customer_id = :cid\<newline>'' @
                      ''            ORDER BY billing_period_end DESC\<newline>'' @
                      ''            LIMIT 1\<newline>            '')
              [(''cid'', the (map_of c ''customer_id''))]]"
    and "user_message =
           ''\<newline>User Query:\<newline>'' @ q @
           ''\<newline> \<newline>Customer:\<newline>'' @ expected_profile env c cur @
           ''\<newline> \<newline>Usage:\<newline>'' @ expected_usage env usg @
           ''\<newline> \<newline>Available Plans:\<newline>'' @ expected_catalog env ps @
           ''\<newline> \<newline>Provide the best personalized plan/add-on recommendations.\<newline>'' @
           ''                ''"
  shows "load_customer_profile env w (Some em) =
           (Inr \<lparr>customer = Some c, current_plan = cur, usage = usg, plans = Some ps\<rparr>,
            w\<lparr>calls := calls w @ queries\<rparr>)
       \<and> recommend_personalized_plan env w (Some em) q =
           (llm_invoke env (calls w @ queries) (openai_model env) plan_system_message user_message,
            w\<lparr>calls := calls w @ queries @
               [LlmInvoke (openai_model env) plan_system_message user_message]\<rparr>)"
  using assms by (rule plan_handler_run)

lemma sample_store_facts:
  "sqlite_execute sample_env
     (''SELECT name FROM sqlite_master WHERE type='' @ [CHR 0x27] @ ''table'' @ [CHR 0x27] @
      '' ORDER BY name'') [] =
     Inr [[(''name'', Some ''customer_usage'')], [(''name'', Some ''customers'')],
          [(''name'', Some ''service_plans'')]]"
  "sqlite_execute sample_env ''SELECT * FROM service_plans'' [] = Inr [basic_plan, standard_plan]"
  "sqlite_execute sample_env ''SELECT * FROM customers WHERE email = :email LIMIT 1''
     [(''email'', val_of_str sample_env ''asha@example.com'')] = Inr (sample_customer # [])"
  "sqlite_execute sample_env
     (''\<newline>            SELECT * FROM customer_usage\<newline>'' @
      ''            WHERE customer_id = :cid\<newline>'' @
      ''            ORDER BY billing_period_end DESC\<newline>'' @
      ''            LIMIT 1\<newline>            '')
     [(''cid'', Some ''C001'')] = Inr [sample_usage]"
  by (simp_all add: sample_env_def sample_execute_def sql_defs)

lemma legacy_store_facts:
  "sqlite_execute legacy_env
     (''SELECT name FROM sqlite_master WHERE type='' @ [CHR 0x27] @ ''table'' @ [CHR 0x27] @
      '' ORDER BY name'') [] =
     Inr [[(''name'', Some ''customer_usage'')], [(''name'', Some ''customers'')],
          [(''name'', Some ''service_plans'')]]"
  "sqlite_execute legacy_env ''SELECT * FROM service_plans'' [] = Inr [basic_plan, standard_plan]"
  "sqlite_execute legacy_env ''SELECT * FROM customers WHERE email = :email LIMIT 1''
     [(''email'', val_of_str legacy_env ''asha@example.com'')] = Inr (legacy_customer # [])"
  "sqlite_execute legacy_env
     (''\<newline>            SELECT * FROM customer_usage\<newline>'' @
      ''            WHERE customer_id = :cid\<newline>'' @
      ''            ORDER BY billing_period_end DESC\<newline>'' @
      ''            LIMIT 1\<newline>            '')
     [(''cid'', Some ''C001'')] = Inr [sample_usage]"
  by (simp_all add: legacy_env_def sample_env_def sample_execute_def sql_defs)

lemma sample_plan_columns:
  "\<forall>p\<in>set [basic_plan, standard_plan]. set plan_columns \<subseteq> set (map fst p)"
  by (simp add: plan_columns_def basic_plan_def standard_plan_def)

lemma sample_usage_columns:
  "\<forall>u\<in>set (take 1 [sample_usage]). set usage_columns \<subseteq> set (map fst u)"
  by (simp add: usage_columns_def sample_usage_def)

lemma sample_table_names:
  "traverse (\<lambda>r. getitem r ''name'')
     [[(''name'', Some ''customer_usage'')], [(''name'', Some ''customers'')],
      [(''name'', Some ''service_plans'')]]
     = Inr [Some ''customer_usage'', Some ''customers'', Some ''service_plans'']"
  by (simp add: getitem_def)

lemma sample_catalog:
  "expected_catalog sample_env [basic_plan, standard_plan] =
     ''- Basic (BASIC_100): '' @ [CHR 0xE2, CHR 0x82, CHR 0xB9] @
     ''199 / month | 2GB | 100 min | 50 SMS\<newline>'' @
     ''- Standard (STD_500): '' @ [CHR 0xE2, CHR 0x82, CHR 0xB9] @
     ''799 / month | 6GB | Unlimited | Unlimited''"
  by (simp add: expected_catalog_def expected_plan_line_def expected_allowance_def cell_def
      basic_plan_def standard_plan_def sample_env_def truthy_str_def str_opt_def)

lemma sample_usage_text:
  "expected_usage sample_env (Some sample_usage) =
     ''Billing Period: 2023-05-01 '' @ [CHR 0xE2, CHR 0x86, CHR 0x92] @ '' 2023-05-31\<newline>'' @
     ''Last Billing Period Usage:\<newline>- Data: 3.5 GB\<newline>- Voice: 320 min\<newline>'' @
     ''- SMS: 45\<newline>- Total Bill Amount: '' @ [CHR 0xE2, CHR 0x82, CHR 0xB9] @ ''799\<newline>''"
  by (simp add: expected_usage_def cell_def sample_usage_def sample_env_def str_opt_def)

lemma sample_profile_text:
  "expected_profile sample_env sample_customer (Some standard_plan) =
     ''Customer ID: C001\<newline>Name: Asha\<newline>Current Plan: Standard (STD_500)\<newline>'' @
     ''Monthly Cost: '' @ [CHR 0xE2, CHR 0x82, CHR 0xB9] @ ''799\<newline>''"
  by (simp add: expected_profile_def cell_def sample_customer_def standard_plan_def sample_env_def
      str_opt_def)

theorem plan_handler_supplies_blobs_witness:
  "sqlite_execute sample_env ''SELECT * FROM customers WHERE email = :email LIMIT 1''
     [(''email'', val_of_str sample_env ''asha@example.com'')] = Inr [sample_customer]
   \<and> load_customer_profile sample_env fresh_world (Some ''asha@example.com'') =
       (Inr \<lparr>customer = Some sample_customer, current_plan = Some standard_plan,
             usage = Some sample_usage, plans = Some [basic_plan, standard_plan]\<rparr>,
        fresh_world\<lparr>calls :=
          [RunQuery tables_sql [], RunQuery plans_sql [],
           RunQuery customer_sql [(''email'', Some ''asha@example.com'')],
           RunQuery usage_sql [(''cid'', Some ''C001'')]]\<rparr>)
   \<and> recommend_personalized_plan sample_env fresh_world (Some ''asha@example.com'')
         ''Recommend me a cheaper plan'' =
       (Inr ''Stay on Standard.'',
        fresh_world\<lparr>calls :=
          [RunQuery tables_sql [], RunQuery plans_sql [],
           RunQuery customer_sql [(''email'', Some ''asha@example.com'')],
           RunQuery usage_sql [(''cid'', Some ''C001'')],
           LlmInvoke ''gpt-4o-mini'' plan_system_message
             (''\<newline>User Query:\<newline>Recommend me a cheaper plan'' @
              ''\<newline> \<newline>Customer:\<newline>'' @
              ''Customer ID: C001\<newline>Name: Asha\<newline>Current Plan: Standard (STD_500)\<newline>'' @
              ''Monthly Cost: '' @ [CHR 0xE2, CHR 0x82, CHR 0xB9] @ ''799\<newline>'' @
              ''\<newline> \<newline>Usage:\<newline>'' @
              ''Billing Period: 2023-05-01 '' @ [CHR 0xE2, CHR 0x86, CHR 0x92] @ '' 2023-05-31\<newline>'' @
              ''Last Billing Period Usage:\<newline>- Data: 3.5 GB\<newline>- Voice: 320 min\<newline>'' @
              ''- SMS: 45\<newline>- Total Bill Amount: '' @ [CHR 0xE2, CHR 0x82, CHR 0xB9] @ ''799\<newline>'' @
              ''\<newline> \<newline>Available Plans:\<newline>'' @
              ''- Basic (BASIC_100): '' @ [CHR 0xE2, CHR 0x82, CHR 0xB9] @
              ''199 / month | 2GB | 100 min | 50 SMS\<newline>'' @
              ''- Standard (STD_500): '' @ [CHR 0xE2, CHR 0x82, CHR 0xB9] @
              ''799 / month | 6GB | Unlimited | Unlimited'' @
              ''\<newline> \<newline>Provide the best personalized plan/add-on recommendations.\<newline>'' @
              ''                '')]\<rparr>)"
proof -
  have h1: "''asha@example.com'' \<noteq> []" by simp
  have h4: "py_in sample_env ''service_plans'' [Some ''customer_usage'', Some ''customers'', Some ''service_plans'']"
    and h5: "py_in sample_env ''customer_usage'' [Some ''customer_usage'', Some ''customers'', Some ''service_plans'']"
    by (simp_all add: py_in_def sample_env_def)
  have h9: "''customer_id'' \<in> set (map fst sample_customer)"
    and h10: "''name'' \<in> set (map fst sample_customer)"
    by (simp_all add: sample_customer_def)
  have cid: "the (map_of sample_customer ''customer_id'') = Some ''C001''"
    by (simp add: sample_customer_def)
  have h13: "Some standard_plan =
     (case map_of sample_customer ''service_plan_id'' of
        None \<Rightarrow> None
      | Some fk \<Rightarrow>
          if val_truthy sample_env fk
          then find (\<lambda>p. val_eq sample_env (the (map_of p ''plan_id'')) fk) [basic_plan, standard_plan]
          else None)"
    by (simp add: sample_customer_def sample_env_def truthy_str_def basic_plan_def standard_plan_def)
  have h14: "Some sample_usage = (case [sample_usage] of [] \<Rightarrow> None | u # older \<Rightarrow> Some u)"
    by simp
  have h15: "truthy_str (openai_api_key sample_env)"
    by (simp add: sample_env_def truthy_str_def)
  note run = plan_handler_supplies_blobs
    [OF h1 sample_store_facts(1) sample_table_names h4 h5 sample_store_facts(2) sample_plan_columns
        sample_store_facts(3) h9 h10 sample_store_facts(4) [folded cid] sample_usage_columns
        h13 h14 h15 refl refl,
     of fresh_world "''Recommend me a cheaper plan''"]
  have inv: "llm_invoke sample_env cs m s u = Inr ''Stay on Standard.''" for cs m s u
    by (simp add: sample_env_def)
  have misc: "calls fresh_world = []" "openai_model sample_env = ''gpt-4o-mini''"
    "val_of_str sample_env ''asha@example.com'' = Some ''asha@example.com''"
    by (simp_all add: fresh_world_def sample_env_def)
  from run sample_store_facts(3) show ?thesis
    by (simp add: inv misc cid sample_catalog sample_usage_text sample_profile_text sql_defs)
qed

text \<open>
  C7 as stated fails: the e-mail is in the store and the customer row (name Asha) is loaded,
  but its \<open>service_plan_id\<close> matches no plan, and the one model call receives "No customer
  profile available." in place of the customer profile.
\<close>

theorem unmatched_plan_drops_customer_profile:
  "sqlite_execute legacy_env ''SELECT * FROM customers WHERE email = :email LIMIT 1''
     [(''email'', val_of_str legacy_env ''asha@example.com'')] = Inr [legacy_customer]
   \<and> map_of legacy_customer ''name'' = Some (Some ''Asha'')
   \<and> recommend_personalized_plan legacy_env fresh_world (Some ''asha@example.com'')
         ''Recommend me a cheaper plan'' =
       (Inr ''Stay on Standard.'',
        fresh_world\<lparr>calls :=
          [RunQuery tables_sql [], RunQuery plans_sql [],
           RunQuery customer_sql [(''email'', Some ''asha@example.com'')],
           RunQuery usage_sql [(''cid'', Some ''C001'')],
           LlmInvoke ''gpt-4o-mini'' plan_system_message
             (''\<newline>User Query:\<newline>Recommend me a cheaper plan'' @
              ''\<newline> \<newline>Customer:\<newline>'' @
              ''No customer profile available.\<newline>'' @
              ''\<newline> \<newline>Usage:\<newline>'' @
              ''Billing Period: 2023-05-01 '' @ [CHR 0xE2, CHR 0x86, CHR 0x92] @ '' 2023-05-31\<newline>'' @
              ''Last Billing Period Usage:\<newline>- Data: 3.5 GB\<newline>- Voice: 320 min\<newline>'' @
              ''- SMS: 45\<newline>- Total Bill Amount: '' @ [CHR 0xE2, CHR 0x82, CHR 0xB9] @ ''799\<newline>'' @
              ''\<newline> \<newline>Available Plans:\<newline>'' @
              ''- Basic (BASIC_100): '' @ [CHR 0xE2, CHR 0x82, CHR 0xB9] @
              ''199 / month | 2GB | 100 min | 50 SMS\<newline>'' @
              ''- Standard (STD_500): '' @ [CHR 0xE2, CHR 0x82, CHR 0xB9] @
              ''799 / month | 6GB | Unlimited | Unlimited'' @
              ''\<newline> \<newline>Provide the best personalized plan/add-on recommendations.\<newline>'' @
              ''                '')]\<rparr>)"
proof -
  have h1: "''asha@example.com'' \<noteq> []" by simp
  have h4: "py_in legacy_env ''service_plans'' [Some ''customer_usage'', Some ''customers'', Some ''service_plans'']"
    and h5: "py_in legacy_env ''customer_usage'' [Some ''customer_usage'', Some ''customers'', Some ''service_plans'']"
    by (simp_all add: py_in_def legacy_env_def sample_env_def)
  have h9: "''customer_id'' \<in> set (map fst legacy_customer)"
    and h10: "''name'' \<in> set (map fst legacy_customer)"
    by (simp_all add: legacy_customer_def)
  have cid: "the (map_of legacy_customer ''customer_id'') = Some ''C001''"
    by (simp add: legacy_customer_def)
  have nm: "map_of legacy_customer ''name'' = Some (Some ''Asha'')"
    by (simp add: legacy_customer_def)
  have h13: "None =
     (case map_of legacy_customer ''service_plan_id'' of
        None \<Rightarrow> None
      | Some fk \<Rightarrow>
          if val_truthy legacy_env fk
          then find (\<lambda>p. val_eq legacy_env (the (map_of p ''plan_id'')) fk) [basic_plan, standard_plan]
          else None)"
    by (simp add: legacy_customer_def legacy_env_def sample_env_def truthy_str_def basic_plan_def
        standard_plan_def)
  have h14: "Some sample_usage = (case [sample_usage] of [] \<Rightarrow> None | u # older \<Rightarrow> Some u)"
    by simp
  have h15: "truthy_str (openai_api_key legacy_env)"
    by (simp add: legacy_env_def sample_env_def truthy_str_def)
  note run = plan_handler_run
    [OF h1 legacy_store_facts(1) sample_table_names h4 h5 legacy_store_facts(2) sample_plan_columns
        legacy_store_facts(3) h9 h10 legacy_store_facts(4) [folded cid] sample_usage_columns
        h13 h14 h15 refl refl,
     of fresh_world "''Recommend me a cheaper plan''"]
  have inv: "llm_invoke legacy_env cs m s u = Inr ''Stay on Standard.''" for cs m s u
    by (simp add: legacy_env_def sample_env_def)
  have misc: "calls fresh_world = []" "openai_model legacy_env = ''gpt-4o-mini''"
    "val_of_str legacy_env ''asha@example.com'' = Some ''asha@example.com''"
    by (simp_all add: fresh_world_def legacy_env_def sample_env_def)
  have c: "cell legacy_env = cell sample_env"
    by (simp add: fun_eq_iff cell_def legacy_env_def)
  have vt: "val_truthy legacy_env = val_truthy sample_env"
    by (simp add: legacy_env_def)
  have a: "expected_allowance legacy_env = expected_allowance sample_env"
    by (simp add: fun_eq_iff expected_allowance_def c vt)
  have l: "expected_plan_line legacy_env = expected_plan_line sample_env"
    by (simp add: fun_eq_iff expected_plan_line_def c a)
  have same:
    "expected_catalog legacy_env [basic_plan, standard_plan]
       = expected_catalog sample_env [basic_plan, standard_plan]"
    "expected_usage legacy_env (Some sample_usage) = expected_usage sample_env (Some sample_usage)"
    by (simp_all add: expected_catalog_def expected_usage_def l c)
  have prof: "expected_profile legacy_env legacy_customer None = ''No customer profile available.\<newline>''"
    by (simp add: expected_profile_def)
  from run legacy_store_facts(3) nm show ?thesis
    by (simp add: inv misc cid same sample_catalog sample_usage_text prof sql_defs)
qed

section \<open>Exceptions at the node boundary\<close>

lemma sample_howto_class:
  "classification (classify_query unknown_model_env (request ''How do I enable VoLTE?'' None))
     = ''knowledge_retrieval''"
  by (simp add: classify_query_def Let_def unknown_model_env_def sample_env_def request_def
        ascii_lower_def any_in_def billing_keywords_def network_keywords_def plan_keywords_def
        howto_keywords_def)

lemma unknown_model_answer:
  "answer_knowledge_query unknown_model_env fresh_world q em =
     (Inl unknown_model, \<lparr>calls = [BuildIndexDefault, AsQueryEngine], index_loaded = True\<rparr>)"
  by (simp add: answer_knowledge_query_def get_index_def init_llama_settings_def build_default_def
        unknown_model_env_def sample_env_def fresh_world_def truthy_str_def record_call_def)

text \<open>
  C2. The billing, network and plan nodes return a state on every path (lemmas
  \<open>crew_ai_node_returns\<close>, \<open>autogen_node_returns\<close>, \<open>langchain_node_returns\<close>). The knowledge
  node does not: in the deployment whose model name the index library rejects, the query
  "How do I enable VoLTE?" is routed to \<open>llamaindex_node\<close>, the call
  \<open>index.as_query_engine\<close> raises between the two \<open>try\<close> blocks of
  \<open>answer_knowledge_query\<close>, and the exception leaves the node and \<open>graph.invoke\<close>. Only
  the \<open>try\<close> of the presentation layer turns it into text, and that text carries the
  message without the type name.
\<close>

theorem llamaindex_node_propagates_exception:
  "route_query (classify_query unknown_model_env (request ''How do I enable VoLTE?'' None))
     = ''llamaindex_node''
   \<and> llamaindex_node unknown_model_env fresh_world
        (classify_query unknown_model_env (request ''How do I enable VoLTE?'' None))
     = (Inl unknown_model, \<lparr>calls = [BuildIndexDefault, AsQueryEngine], index_loaded = True\<rparr>)
   \<and> graph_invoke unknown_model_env fresh_world (request ''How do I enable VoLTE?'' None)
     = (Inl unknown_model, \<lparr>calls = [BuildIndexDefault, AsQueryEngine], index_loaded = True\<rparr>)
   \<and> fst (run_query_through_graph unknown_model_env fresh_world logged_in ''How do I enable VoLTE?'')
     = [CHR 0xE2, CHR 0x9D, CHR 0x8C] @
       '' Error while processing your request (possible DB/agent issue): '' @ ''Unknown model''"
proof -
  have r: "route_query (classify_query unknown_model_env (request ''How do I enable VoLTE?'' None))
     = ''llamaindex_node''"
    by (simp add: route_query_def Let_def sample_howto_class)
  have n: "llamaindex_node unknown_model_env fresh_world st
     = (Inl unknown_model, \<lparr>calls = [BuildIndexDefault, AsQueryEngine], index_loaded = True\<rparr>)" for st
    by (simp add: llamaindex_node_def Let_def unknown_model_answer)
  have g: "graph_invoke unknown_model_env fresh_world (request ''How do I enable VoLTE?'' None)
     = (Inl unknown_model, \<lparr>calls = [BuildIndexDefault, AsQueryEngine], index_loaded = True\<rparr>)"
    by (simp add: graph_invoke_def route_and_handle_def run_node_def r n)
  have q: "\<lparr>query = ''How do I enable VoLTE?'', customer_info = [(''email'', email logged_in)],
            classification = [], intermediate_responses = [], final_response = [],
            chat_history = session_chat_history logged_in\<rparr>
          = (request ''How do I enable VoLTE?'' None)
              \<lparr>customer_info := [(''email'', email logged_in)],
               chat_history := session_chat_history logged_in\<rparr>"
    by (simp add: request_def)
  have c: "classification (classify_query unknown_model_env
             ((request ''How do I enable VoLTE?'' None)
              \<lparr>customer_info := [(''email'', email logged_in)],
               chat_history := session_chat_history logged_in\<rparr>)) = ''knowledge_retrieval''"
    using sample_howto_class by (simp add: classify_query_def Let_def request_def)
  have u: "fst (run_query_through_graph unknown_model_env fresh_world logged_in ''How do I enable VoLTE?'')
     = [CHR 0xE2, CHR 0x9D, CHR 0x8C] @
       '' Error while processing your request (possible DB/agent issue): '' @ ''Unknown model''"
    unfolding run_query_through_graph_def q
    by (simp add: logged_in_def graph_invoke_def route_and_handle_def run_node_def route_query_def
        Let_def c [unfolded logged_in_def, simplified] n unknown_model_def)
  from r n g u show ?thesis by blast
qed

section \<open>The chat transcript of the session\<close>

lemma sidebar_login_history:
  "session_chat_history (fst (sidebar_login ev s)) =
     (if ev = LogoutClick \<and> authenticated s then [] else session_chat_history s)"
  by (cases ev) (simp_all add: sidebar_login_def)

lemma sidebar_login_rerun_noop:
  "snd (sidebar_login ev s) \<Longrightarrow> script_run env w NoInput (Some (fst (sidebar_login ev s)))
     = ((fst (sidebar_login ev s), w), False)"
  by (cases ev)
     (auto simp: sidebar_login_def script_run_def init_session_def customer_view_def split: if_splits)

lemma customer_view_history:
  "session_chat_history (fst (customer_view env w ev s)) =
     (case ev of
        ChatSubmit prompt \<Rightarrow>
          if prompt \<noteq> [] then
            session_chat_history s @
              [\<lparr>role = ''user'', content = prompt\<rparr>,
               \<lparr>role = ''assistant'',
                content = fst (run_query_through_graph env w
                  (s\<lparr>session_chat_history :=
                       session_chat_history s @ [\<lparr>role = ''user'', content = prompt\<rparr>]\<rparr>) prompt)\<rparr>]
          else session_chat_history s
      | _ \<Rightarrow> session_chat_history s)"
  by (cases ev) (simp_all add: customer_view_def Let_def split: prod.splits)

lemma script_run_eq:
  "script_run env w ev (Some s) =
     (if snd (sidebar_login ev s) then ((fst (sidebar_login ev s), w), True)
      else if authenticated (fst (sidebar_login ev s))
              \<and> user_type (fst (sidebar_login ev s)) = Some ''Customer''
      then (customer_view env w ev (fst (sidebar_login ev s)), False)
      else ((fst (sidebar_login ev s), w), False))"
  by (simp add: script_run_def init_session_def split: prod.splits)

lemma sidebar_login_no_rerun:
  "\<not> snd (sidebar_login ev s) \<Longrightarrow>
     fst (sidebar_login ev s) = s \<and> \<not> (ev = LogoutClick \<and> authenticated s)"
  by (cases ev) (auto simp: sidebar_login_def split: if_splits)

lemma sidebar_login_rerun:
  "snd (sidebar_login ev s) \<Longrightarrow>
     ev = LogoutClick \<and> authenticated s \<or> \<not> authenticated s"
  by (cases ev) (auto simp: sidebar_login_def split: if_splits)

lemma main_run_eq:
  "main_run env w ev (Some s) =
     (if snd (sidebar_login ev s) then (fst (sidebar_login ev s), w)
      else if authenticated s \<and> user_type s = Some ''Customer''
      then customer_view env w ev s
      else (s, w))"
proof (cases "snd (sidebar_login ev s)")
  case True
  then show ?thesis
    using sidebar_login_rerun_noop [OF True, of env w]
    by (simp add: main_run_def script_run_eq)
next
  case False
  with sidebar_login_no_rerun [OF False] show ?thesis
    by (simp add: main_run_def script_run_eq)
qed

lemma main_run_history:
  "session_chat_history (fst (main_run env w ev (Some s))) =
     (if ev = LogoutClick \<and> authenticated s then []
      else if authenticated s \<and> user_type s = Some ''Customer''
      then session_chat_history (fst (customer_view env w ev s))
      else session_chat_history s)"
proof (cases "snd (sidebar_login ev s)")
  case True
  with sidebar_login_rerun [OF True] show ?thesis
    by (auto simp: main_run_eq sidebar_login_history)
next
  case False
  with sidebar_login_no_rerun [OF False] show ?thesis
    by (auto simp: main_run_eq)
qed

text \<open>
  C9 (amended). The chat transcript is kept in the session from one run of the script to the
  next. A run caused by anything but a click on Logout in a logged-in session leaves the
  transcript as it was or appends to it: a chat line sent by a logged-in customer appends
  the user's message and then the assistant's response. A click on Logout in a logged-in
  session resets the transcript to the empty list.
\<close>

theorem chat_history_appended_or_reset:
  "(ev = LogoutClick \<and> authenticated s \<longrightarrow>
      session_chat_history (fst (main_run env w ev (Some s))) = [])
   \<and> (\<not> (ev = LogoutClick \<and> authenticated s) \<longrightarrow>
      prefix (session_chat_history s) (session_chat_history (fst (main_run env w ev (Some s)))))
   \<and> (ev = ChatSubmit prompt \<and> prompt \<noteq> [] \<and> authenticated s \<and> user_type s = Some ''Customer'' \<longrightarrow>
      (\<exists>response. session_chat_history (fst (main_run env w ev (Some s))) =
         session_chat_history s @
           [\<lparr>role = ''user'', content = prompt\<rparr>, \<lparr>role = ''assistant'', content = response\<rparr>]))"
proof -
  have a: "ev = LogoutClick \<and> authenticated s \<longrightarrow>
      session_chat_history (fst (main_run env w ev (Some s))) = []"
    by (simp add: main_run_history)
  have b: "\<not> (ev = LogoutClick \<and> authenticated s) \<longrightarrow>
      prefix (session_chat_history s) (session_chat_history (fst (main_run env w ev (Some s))))"
    by (cases ev) (auto simp: main_run_history customer_view_history)
  have c: "ev = ChatSubmit prompt \<and> prompt \<noteq> [] \<and> authenticated s \<and> user_type s = Some ''Customer'' \<longrightarrow>
      (\<exists>response. session_chat_history (fst (main_run env w ev (Some s))) =
         session_chat_history s @
           [\<lparr>role = ''user'', content = prompt\<rparr>, \<lparr>role = ''assistant'', content = response\<rparr>])"
    by (auto simp: main_run_history customer_view_history)
  from a b c show ?thesis by blast
qed

text \<open>
  C9 as stated fails: after a click on Logout the transcript of a logged-in session that
  held one message is empty, so the old transcript is not a prefix of the new one.
\<close>

theorem logout_clears_chat_history:
  "authenticated logged_in
   \<and> session_chat_history logged_in = [\<lparr>role = ''user'', content = ''hello''\<rparr>]
   \<and> session_chat_history (fst (main_run sample_env fresh_world LogoutClick (Some logged_in))) = []
   \<and> \<not> prefix (session_chat_history logged_in)
         (session_chat_history (fst (main_run sample_env fresh_world LogoutClick (Some logged_in))))"
  by (simp add: main_run_def script_run_def sidebar_login_def init_session_def logged_in_def
      customer_view_def)

theorem chat_history_appended_or_reset_witness:
  "authenticated logged_in \<and> user_type logged_in = Some ''Customer''
   \<and> session_chat_history (fst (main_run sample_env fresh_world LogoutClick (Some logged_in))) = []
   \<and> prefix (session_chat_history logged_in)
        (session_chat_history (fst (main_run sample_env fresh_world (ChatSubmit ''Thanks'') (Some logged_in))))
   \<and> (\<exists>response.
        session_chat_history (fst (main_run sample_env fresh_world (ChatSubmit ''Thanks'') (Some logged_in))) =
          session_chat_history logged_in @
            [\<lparr>role = ''user'', content = ''Thanks''\<rparr>, \<lparr>role = ''assistant'', content = response\<rparr>])"
proof -
  have a: "authenticated logged_in" and u: "user_type logged_in = Some ''Customer''"
    by (simp_all add: logged_in_def)
  from chat_history_appended_or_reset [of LogoutClick logged_in sample_env fresh_world] a
  have l: "session_chat_history (fst (main_run sample_env fresh_world LogoutClick (Some logged_in))) = []"
    by blast
  have ne: "''Thanks'' \<noteq> []" by simp
  from chat_history_appended_or_reset
         [of "ChatSubmit ''Thanks''" logged_in sample_env fresh_world "''Thanks''"] a u ne
  have "prefix (session_chat_history logged_in)
        (session_chat_history (fst (main_run sample_env fresh_world (ChatSubmit ''Thanks'') (Some logged_in))))"
    and "\<exists>response.
        session_chat_history (fst (main_run sample_env fresh_world (ChatSubmit ''Thanks'') (Some logged_in))) =
          session_chat_history logged_in @
            [\<lparr>role = ''user'', content = ''Thanks''\<rparr>, \<lparr>role = ''assistant'', content = response\<rparr>]"
    by blast+
  with a u l show ?thesis by blast
qed

section \<open>The snapshot builder of the billing handler\<close>


















end
